theory Spec2Isabelle
  imports Complex_Main "HOL-Library.Log_Nat" "HOL-Library.Sublist"
begin

section \<open>Python values\<close>

text \<open>
  A Python \<open>str\<close> is a sequence of Unicode code points; it is modelled as the list of
  its code points, so that equality and concatenation are those of Python. The unit
  codes and messages of the program are Cyrillic; every constant below gives the code
  points and, as a comment, a Latin transliteration.
\<close>

type_synonym pystr = "nat list"

definition ascii :: "string \<Rightarrow> pystr" where
  "ascii s = map of_char s"

text \<open>
  The exceptions that the modelled functions raise. \<open>RequestException\<close> stands for the
  exceptions of the HTTP library (connection errors, timeouts, \<open>HTTPError\<close>).
\<close>

datatype pyerror =
    ValueError pystr
  | ZeroDivisionError
  | KeyError pystr
  | TypeError
  | OSError
  | JSONDecodeError
  | RequestException

subsection \<open>Floating point numbers\<close>

text \<open>
  A Python \<open>float\<close> is an IEEE 754 binary64 number. A finite one is represented by the
  real number it denotes (the two zeros are identified, as \<open>==\<close> does); \<open>round_double\<close>
  is rounding to nearest, ties to even, with 53 significant bits, gradual underflow
  below \<open>2 ^ -1022\<close> and overflow to infinity from \<open>2 ^ 1024\<close> on.
\<close>

datatype pyfloat = Fin real | PInf | NInf | NaN

definition pow2 :: "int \<Rightarrow> real" where
  "pow2 k = (if 0 \<le> k then 2 ^ nat k else 1 / 2 ^ nat (- k))"

definition ilog2 :: "real \<Rightarrow> int" where
  "ilog2 q = (if 1 \<le> q then bitlen \<lfloor>q\<rfloor> - 1 else - bitlen (\<lceil>1 / q\<rceil> - 1))"

definition round_even :: "real \<Rightarrow> int" where
  "round_even q =
     (let f = \<lfloor>q\<rfloor>; d = q - of_int f
      in if d < 1 / 2 then f else if 1 / 2 < d then f + 1 else if even f then f else f + 1)"

definition round_double :: "real \<Rightarrow> pyfloat" where
  "round_double q =
     (if q = 0 then Fin 0
      else let a = \<bar>q\<bar>;
               e = max (ilog2 a) (- 1022);
               ulp = pow2 (e - 52);
               r = of_int (round_even (a / ulp)) * ulp
           in if pow2 1024 \<le> r then (if 0 < q then PInf else NInf)
              else Fin (if 0 < q then r else - r))"

text \<open>A decimal literal of the source denotes the double nearest to it.\<close>

definition lit :: "real \<Rightarrow> pyfloat" where
  "lit q = round_double q"

definition is_double :: "real \<Rightarrow> bool" where
  "is_double q \<longleftrightarrow> round_double q = Fin q"

fun fneg :: "pyfloat \<Rightarrow> pyfloat" where
  "fneg (Fin a) = Fin (- a)"
| "fneg PInf = NInf"
| "fneg NInf = PInf"
| "fneg NaN = NaN"

fun fadd :: "pyfloat \<Rightarrow> pyfloat \<Rightarrow> pyfloat" where
  "fadd (Fin a) (Fin b) = round_double (a + b)"
| "fadd NaN y = NaN"
| "fadd x NaN = NaN"
| "fadd PInf NInf = NaN"
| "fadd NInf PInf = NaN"
| "fadd PInf y = PInf"
| "fadd NInf y = NInf"
| "fadd (Fin a) y = y"

definition fsub :: "pyfloat \<Rightarrow> pyfloat \<Rightarrow> pyfloat" where
  "fsub x y = fadd x (fneg y)"

definition inf_of_sign :: "real \<Rightarrow> pyfloat" where
  "inf_of_sign s = (if s = 0 then NaN else if 0 < s then PInf else NInf)"

fun fmul :: "pyfloat \<Rightarrow> pyfloat \<Rightarrow> pyfloat" where
  "fmul (Fin a) (Fin b) = round_double (a * b)"
| "fmul NaN y = NaN"
| "fmul x NaN = NaN"
| "fmul PInf (Fin b) = inf_of_sign b"
| "fmul NInf (Fin b) = inf_of_sign (- b)"
| "fmul (Fin a) PInf = inf_of_sign a"
| "fmul (Fin a) NInf = inf_of_sign (- a)"
| "fmul PInf PInf = PInf"
| "fmul PInf NInf = NInf"
| "fmul NInf PInf = NInf"
| "fmul NInf NInf = PInf"

text \<open>
  The IEEE quotient, for a divisor other than zero, and Python's \<open>/\<close>, which raises
  \<open>ZeroDivisionError\<close> on a zero divisor whatever the dividend is.
\<close>

fun fquot :: "pyfloat \<Rightarrow> pyfloat \<Rightarrow> pyfloat" where
  "fquot (Fin a) (Fin b) = round_double (a / b)"
| "fquot NaN y = NaN"
| "fquot x NaN = NaN"
| "fquot PInf (Fin b) = inf_of_sign b"
| "fquot NInf (Fin b) = inf_of_sign (- b)"
| "fquot (Fin a) y = Fin 0"
| "fquot x y = NaN"

definition fdiv :: "pyfloat \<Rightarrow> pyfloat \<Rightarrow> pyerror + pyfloat" where
  "fdiv x y = (if y = Fin 0 then Inl ZeroDivisionError else Inr (fquot x y))"

subsection \<open>Time\<close>

text \<open>
  A naive \<open>datetime\<close> is the number of microseconds since some epoch, a \<open>timedelta\<close> a
  number of microseconds; both are exact in Python.
\<close>

type_synonym datetime = int
type_synonym timedelta = int

definition timedelta_hours :: "int \<Rightarrow> timedelta" where
  "timedelta_hours h = h * 3600 * 1000000"

section \<open>Constants and the result record\<close>

definition API_KEY :: pystr where
  "API_KEY = ascii ''ce5a102264928bf6141e12264''"

definition BASE_CURRENCY :: pystr where
  "BASE_CURRENCY = ascii ''RUB''"

definition CACHE_DURATION_HOURS :: int where
  "CACHE_DURATION_HOURS = 24"

record ConversionResult =
  amount :: pyfloat
  from_unit :: pystr
  to_unit :: pystr
  result :: pyfloat
  timestamp :: datetime
  rate :: "pyfloat option"


section \<open>UnitConverter\<close>

text \<open>
  An entry of the factor table is a number for the linear categories and a string for
  the three temperature units.
\<close>

datatype factor = Factor pyfloat | Marker pystr

subsection \<open>Category names and unit codes\<close>

abbreviation cat_Dlina :: pystr where \<comment> \<open>Dlina\<close>
  "cat_Dlina \<equiv> [0x414, 0x43B, 0x438, 0x43D, 0x430]"

abbreviation cat_Massa :: pystr where \<comment> \<open>Massa\<close>
  "cat_Massa \<equiv> [0x41C, 0x430, 0x441, 0x441, 0x430]"

abbreviation cat_Temperatura :: pystr where \<comment> \<open>Temperatura\<close>
  "cat_Temperatura \<equiv> [0x422, 0x435, 0x43C, 0x43F, 0x435, 0x440, 0x430, 0x442, 0x443, 0x440, 0x430]"

abbreviation cat_Ploshchad :: pystr where \<comment> \<open>Ploshchad\<close>
  "cat_Ploshchad \<equiv> [0x41F, 0x43B, 0x43E, 0x449, 0x430, 0x434, 0x44C]"

abbreviation cat_Skorost :: pystr where \<comment> \<open>Skorost\<close>
  "cat_Skorost \<equiv> [0x421, 0x43A, 0x43E, 0x440, 0x43E, 0x441, 0x442, 0x44C]"

abbreviation cat_Obem :: pystr where \<comment> \<open>Obem\<close>
  "cat_Obem \<equiv> [0x41E, 0x431, 0x44A, 0x435, 0x43C]"

abbreviation cat_Davlenie :: pystr where \<comment> \<open>Davlenie\<close>
  "cat_Davlenie \<equiv> [0x414, 0x430, 0x432, 0x43B, 0x435, 0x43D, 0x438, 0x435]"

abbreviation cat_Energiya :: pystr where \<comment> \<open>Energiya\<close>
  "cat_Energiya \<equiv> [0x42D, 0x43D, 0x435, 0x440, 0x433, 0x438, 0x44F]"

abbreviation cat_Moshchnost :: pystr where \<comment> \<open>Moshchnost\<close>
  "cat_Moshchnost \<equiv> [0x41C, 0x43E, 0x449, 0x43D, 0x43E, 0x441, 0x442, 0x44C]"

abbreviation cat_Vremya :: pystr where \<comment> \<open>Vremya\<close>
  "cat_Vremya \<equiv> [0x412, 0x440, 0x435, 0x43C, 0x44F]"


text \<open>Unit codes of category \<open>Dlina\<close>.\<close>

abbreviation u_mm :: pystr where \<comment> \<open>mm\<close>
  "u_mm \<equiv> [0x43C, 0x43C]"

abbreviation u_sm :: pystr where \<comment> \<open>sm\<close>
  "u_sm \<equiv> [0x441, 0x43C]"

abbreviation u_m :: pystr where \<comment> \<open>m\<close>
  "u_m \<equiv> [0x43C]"

abbreviation u_km :: pystr where \<comment> \<open>km\<close>
  "u_km \<equiv> [0x43A, 0x43C]"

abbreviation u_dyujm :: pystr where \<comment> \<open>dyujm\<close>
  "u_dyujm \<equiv> [0x434, 0x44E, 0x439, 0x43C]"

abbreviation u_fut :: pystr where \<comment> \<open>fut\<close>
  "u_fut \<equiv> [0x444, 0x443, 0x442]"

abbreviation u_yard :: pystr where \<comment> \<open>yard\<close>
  "u_yard \<equiv> [0x44F, 0x440, 0x434]"

abbreviation u_milya :: pystr where \<comment> \<open>milya\<close>
  "u_milya \<equiv> [0x43C, 0x438, 0x43B, 0x44F]"

abbreviation u_morskaya_milya :: pystr where \<comment> \<open>morskaya milya\<close>
  "u_morskaya_milya \<equiv> [0x43C, 0x43E, 0x440, 0x441, 0x43A, 0x430, 0x44F, 0x20, 0x43C, 0x438, 0x43B, 0x44F]"


text \<open>Unit codes of category \<open>Massa\<close>.\<close>

abbreviation u_mg :: pystr where \<comment> \<open>mg\<close>
  "u_mg \<equiv> [0x43C, 0x433]"

abbreviation u_g :: pystr where \<comment> \<open>g\<close>
  "u_g \<equiv> [0x433]"

abbreviation u_kg :: pystr where \<comment> \<open>kg\<close>
  "u_kg \<equiv> [0x43A, 0x433]"

abbreviation u_t :: pystr where \<comment> \<open>t\<close>
  "u_t \<equiv> [0x442]"

abbreviation u_centner :: pystr where \<comment> \<open>centner\<close>
  "u_centner \<equiv> [0x446, 0x435, 0x43D, 0x442, 0x43D, 0x435, 0x440]"

abbreviation u_unciya :: pystr where \<comment> \<open>unciya\<close>
  "u_unciya \<equiv> [0x443, 0x43D, 0x446, 0x438, 0x44F]"

abbreviation u_funt :: pystr where \<comment> \<open>funt\<close>
  "u_funt \<equiv> [0x444, 0x443, 0x43D, 0x442]"

abbreviation u_karat :: pystr where \<comment> \<open>karat\<close>
  "u_karat \<equiv> [0x43A, 0x430, 0x440, 0x430, 0x442]"


text \<open>Unit codes of category \<open>Temperatura\<close>.\<close>

abbreviation u_degC :: pystr where \<comment> \<open>degC\<close>
  "u_degC \<equiv> [0xB0, 0x43]"

abbreviation u_degF :: pystr where \<comment> \<open>degF\<close>
  "u_degF \<equiv> [0xB0, 0x46]"

abbreviation u_K :: pystr where \<comment> \<open>K\<close>
  "u_K \<equiv> [0x4B]"


text \<open>Unit codes of category \<open>Ploshchad\<close>.\<close>

abbreviation u_mm2 :: pystr where \<comment> \<open>mm2\<close>
  "u_mm2 \<equiv> [0x43C, 0x43C, 0xB2]"

abbreviation u_sm2 :: pystr where \<comment> \<open>sm2\<close>
  "u_sm2 \<equiv> [0x441, 0x43C, 0xB2]"

abbreviation u_m2 :: pystr where \<comment> \<open>m2\<close>
  "u_m2 \<equiv> [0x43C, 0xB2]"

abbreviation u_km2 :: pystr where \<comment> \<open>km2\<close>
  "u_km2 \<equiv> [0x43A, 0x43C, 0xB2]"

abbreviation u_ga :: pystr where \<comment> \<open>ga\<close>
  "u_ga \<equiv> [0x433, 0x430]"

abbreviation u_sotka :: pystr where \<comment> \<open>sotka\<close>
  "u_sotka \<equiv> [0x441, 0x43E, 0x442, 0x43A, 0x430]"

abbreviation u_akr :: pystr where \<comment> \<open>akr\<close>
  "u_akr \<equiv> [0x430, 0x43A, 0x440]"

abbreviation u_fut2 :: pystr where \<comment> \<open>fut2\<close>
  "u_fut2 \<equiv> [0x444, 0x443, 0x442, 0xB2]"

abbreviation u_dyujm2 :: pystr where \<comment> \<open>dyujm2\<close>
  "u_dyujm2 \<equiv> [0x434, 0x44E, 0x439, 0x43C, 0xB2]"


text \<open>Unit codes of category \<open>Skorost\<close>.\<close>

abbreviation u_m_per_s :: pystr where \<comment> \<open>m per s\<close>
  "u_m_per_s \<equiv> [0x43C, 0x2F, 0x441]"

abbreviation u_km_per_ch :: pystr where \<comment> \<open>km per ch\<close>
  "u_km_per_ch \<equiv> [0x43A, 0x43C, 0x2F, 0x447]"

abbreviation u_mil_per_ch :: pystr where \<comment> \<open>mil per ch\<close>
  "u_mil_per_ch \<equiv> [0x43C, 0x438, 0x43B, 0x44C, 0x2F, 0x447]"

abbreviation u_uzly :: pystr where \<comment> \<open>uzly\<close>
  "u_uzly \<equiv> [0x443, 0x437, 0x43B, 0x44B]"

abbreviation u_fut_per_s :: pystr where \<comment> \<open>fut per s\<close>
  "u_fut_per_s \<equiv> [0x444, 0x443, 0x442, 0x2F, 0x441]"


text \<open>Unit codes of category \<open>Obem\<close>.\<close>

abbreviation u_ml :: pystr where \<comment> \<open>ml\<close>
  "u_ml \<equiv> [0x43C, 0x43B]"

abbreviation u_l :: pystr where \<comment> \<open>l\<close>
  "u_l \<equiv> [0x43B]"

abbreviation u_m3 :: pystr where \<comment> \<open>m3\<close>
  "u_m3 \<equiv> [0x43C, 0xB3]"

abbreviation u_sm3 :: pystr where \<comment> \<open>sm3\<close>
  "u_sm3 \<equiv> [0x441, 0x43C, 0xB3]"

abbreviation u_gallon_US :: pystr where \<comment> \<open>gallon US\<close>
  "u_gallon_US \<equiv> [0x433, 0x430, 0x43B, 0x43B, 0x43E, 0x43D, 0x20, 0x55, 0x53]"

abbreviation u_gallon_UK :: pystr where \<comment> \<open>gallon UK\<close>
  "u_gallon_UK \<equiv> [0x433, 0x430, 0x43B, 0x43B, 0x43E, 0x43D, 0x20, 0x55, 0x4B]"

abbreviation u_pinta_US :: pystr where \<comment> \<open>pinta US\<close>
  "u_pinta_US \<equiv> [0x43F, 0x438, 0x43D, 0x442, 0x430, 0x20, 0x55, 0x53]"

abbreviation u_pinta_UK :: pystr where \<comment> \<open>pinta UK\<close>
  "u_pinta_UK \<equiv> [0x43F, 0x438, 0x43D, 0x442, 0x430, 0x20, 0x55, 0x4B]"

abbreviation u_zhidkaya_unciya :: pystr where \<comment> \<open>zhidkaya unciya\<close>
  "u_zhidkaya_unciya \<equiv> [0x436, 0x438, 0x434, 0x43A, 0x430, 0x44F, 0x20, 0x443, 0x43D, 0x446, 0x438, 0x44F]"

abbreviation u_barrel_neftyanoj :: pystr where \<comment> \<open>barrel neftyanoj\<close>
  "u_barrel_neftyanoj \<equiv> [0x431, 0x430, 0x440, 0x440, 0x435, 0x43B, 0x44C, 0x20, 0x43D, 0x435, 0x444, 0x442, 0x44F, 0x43D, 0x43E, 0x439]"


text \<open>Unit codes of category \<open>Davlenie\<close>.\<close>

abbreviation u_Pa :: pystr where \<comment> \<open>Pa\<close>
  "u_Pa \<equiv> [0x41F, 0x430]"

abbreviation u_kPa :: pystr where \<comment> \<open>kPa\<close>
  "u_kPa \<equiv> [0x43A, 0x41F, 0x430]"

abbreviation u_MPa :: pystr where \<comment> \<open>MPa\<close>
  "u_MPa \<equiv> [0x41C, 0x41F, 0x430]"

abbreviation u_bar :: pystr where \<comment> \<open>bar\<close>
  "u_bar \<equiv> [0x431, 0x430, 0x440]"

abbreviation u_atm :: pystr where \<comment> \<open>atm\<close>
  "u_atm \<equiv> [0x430, 0x442, 0x43C]"

abbreviation u_mm_rtst :: pystr where \<comment> \<open>mm rtst\<close>
  "u_mm_rtst \<equiv> [0x43C, 0x43C, 0x20, 0x440, 0x442, 0x2E, 0x441, 0x442, 0x2E]"

abbreviation u_psi :: pystr where \<comment> \<open>psi\<close>
  "u_psi \<equiv> [0x70, 0x73, 0x69]"


text \<open>Unit codes of category \<open>Energiya\<close>.\<close>

abbreviation u_Dzh :: pystr where \<comment> \<open>Dzh\<close>
  "u_Dzh \<equiv> [0x414, 0x436]"

abbreviation u_kDzh :: pystr where \<comment> \<open>kDzh\<close>
  "u_kDzh \<equiv> [0x43A, 0x414, 0x436]"

abbreviation u_MDzh :: pystr where \<comment> \<open>MDzh\<close>
  "u_MDzh \<equiv> [0x41C, 0x414, 0x436]"

abbreviation u_kkal :: pystr where \<comment> \<open>kkal\<close>
  "u_kkal \<equiv> [0x43A, 0x43A, 0x430, 0x43B]"

abbreviation u_kal :: pystr where \<comment> \<open>kal\<close>
  "u_kal \<equiv> [0x43A, 0x430, 0x43B]"

abbreviation u_kVt_ch :: pystr where \<comment> \<open>kVt ch\<close>
  "u_kVt_ch \<equiv> [0x43A, 0x412, 0x442, 0xB7, 0x447]"

abbreviation u_eV :: pystr where \<comment> \<open>eV\<close>
  "u_eV \<equiv> [0x44D, 0x412]"


text \<open>Unit codes of category \<open>Moshchnost\<close>.\<close>

abbreviation u_Vt :: pystr where \<comment> \<open>Vt\<close>
  "u_Vt \<equiv> [0x412, 0x442]"

abbreviation u_kVt :: pystr where \<comment> \<open>kVt\<close>
  "u_kVt \<equiv> [0x43A, 0x412, 0x442]"

abbreviation u_MVt :: pystr where \<comment> \<open>MVt\<close>
  "u_MVt \<equiv> [0x41C, 0x412, 0x442]"

abbreviation u_ls :: pystr where \<comment> \<open>ls\<close>
  "u_ls \<equiv> [0x43B, 0x2E, 0x441, 0x2E]"

abbreviation u_ls_angl :: pystr where \<comment> \<open>ls angl\<close>
  "u_ls_angl \<equiv> [0x43B, 0x2E, 0x441, 0x2E, 0x20, 0x28, 0x430, 0x43D, 0x433, 0x43B, 0x2E, 0x29]"


text \<open>Unit codes of category \<open>Vremya\<close>.\<close>

abbreviation u_ns :: pystr where \<comment> \<open>ns\<close>
  "u_ns \<equiv> [0x43D, 0x441]"

abbreviation u_mks :: pystr where \<comment> \<open>mks\<close>
  "u_mks \<equiv> [0x43C, 0x43A, 0x441]"

abbreviation u_ms :: pystr where \<comment> \<open>ms\<close>
  "u_ms \<equiv> [0x43C, 0x441]"

abbreviation u_s :: pystr where \<comment> \<open>s\<close>
  "u_s \<equiv> [0x441]"

abbreviation u_min :: pystr where \<comment> \<open>min\<close>
  "u_min \<equiv> [0x43C, 0x438, 0x43D]"

abbreviation u_ch :: pystr where \<comment> \<open>ch\<close>
  "u_ch \<equiv> [0x447]"

abbreviation u_den :: pystr where \<comment> \<open>den\<close>
  "u_den \<equiv> [0x434, 0x435, 0x43D, 0x44C]"

abbreviation u_nedelya :: pystr where \<comment> \<open>nedelya\<close>
  "u_nedelya \<equiv> [0x43D, 0x435, 0x434, 0x435, 0x43B, 0x44F]"

abbreviation u_mesyac :: pystr where \<comment> \<open>mesyac\<close>
  "u_mesyac \<equiv> [0x43C, 0x435, 0x441, 0x44F, 0x446]"

abbreviation u_god :: pystr where \<comment> \<open>god\<close>
  "u_god \<equiv> [0x433, 0x43E, 0x434]"


subsection \<open>The factor table\<close>

definition CONVERSION_FACTORS :: "(pystr \<times> (pystr \<times> factor) list) list" where
  "CONVERSION_FACTORS =

     [(cat_Dlina,
        [(u_mm, Factor (lit (1 / 1000))),
         (u_sm, Factor (lit (1 / 100))),
         (u_m, Factor (lit 1)),
         (u_km, Factor (lit 1000)),
         (u_dyujm, Factor (lit (127 / 5000))),
         (u_fut, Factor (lit (381 / 1250))),
         (u_yard, Factor (lit (1143 / 1250))),
         (u_milya, Factor (lit (80467 / 50))),
         (u_morskaya_milya, Factor (lit 1852))]),
      (cat_Massa,
        [(u_mg, Factor (lit (1 / 1000000))),
         (u_g, Factor (lit (1 / 1000))),
         (u_kg, Factor (lit 1)),
         (u_t, Factor (lit 1000)),
         (u_centner, Factor (lit 100)),
         (u_unciya, Factor (lit (56699 / 2000000))),
         (u_funt, Factor (lit (56699 / 125000))),
         (u_karat, Factor (lit (1 / 5000)))]),
      (cat_Temperatura,
        [(u_degC, Marker (ascii ''celsius'')),
         (u_degF, Marker (ascii ''fahrenheit'')),
         (u_K, Marker (ascii ''kelvin''))]),
      (cat_Ploshchad,
        [(u_mm2, Factor (lit (1 / 1000000))),
         (u_sm2, Factor (lit (1 / 10000))),
         (u_m2, Factor (lit 1)),
         (u_km2, Factor (lit 1000000)),
         (u_ga, Factor (lit 10000)),
         (u_sotka, Factor (lit 100)),
         (u_akr, Factor (lit (202343 / 50))),
         (u_fut2, Factor (lit (92903 / 1000000))),
         (u_dyujm2, Factor (lit (16129 / 25000000)))]),
      (cat_Skorost,
        [(u_m_per_s, Factor (lit 1)),
         (u_km_per_ch, Factor (lit (138889 / 500000))),
         (u_mil_per_ch, Factor (lit (1397 / 3125))),
         (u_uzly, Factor (lit (128611 / 250000))),
         (u_fut_per_s, Factor (lit (381 / 1250)))]),
      (cat_Obem,
        [(u_ml, Factor (lit (1 / 1000))),
         (u_l, Factor (lit 1)),
         (u_m3, Factor (lit 1000)),
         (u_sm3, Factor (lit (1 / 1000))),
         (u_gallon_US, Factor (lit (378541 / 100000))),
         (u_gallon_UK, Factor (lit (454609 / 100000))),
         (u_pinta_US, Factor (lit (59147 / 125000))),
         (u_pinta_UK, Factor (lit (568261 / 1000000))),
         (u_zhidkaya_unciya, Factor (lit (59147 / 2000000))),
         (u_barrel_neftyanoj, Factor (lit (158987 / 1000)))]),
      (cat_Davlenie,
        [(u_Pa, Factor (lit 1)),
         (u_kPa, Factor (lit 1000)),
         (u_MPa, Factor (lit 1000000)),
         (u_bar, Factor (lit 100000)),
         (u_atm, Factor (lit 101325)),
         (u_mm_rtst, Factor (lit (66661 / 500))),
         (u_psi, Factor (lit (172369 / 25)))]),
      (cat_Energiya,
        [(u_Dzh, Factor (lit 1)),
         (u_kDzh, Factor (lit 1000)),
         (u_MDzh, Factor (lit 1000000)),
         (u_kkal, Factor (lit 4184)),
         (u_kal, Factor (lit (523 / 125))),
         (u_kVt_ch, Factor (lit 3600000)),
         (u_eV, Factor (lit (80109 / 500000000000000000000000)))]),
      (cat_Moshchnost,
        [(u_Vt, Factor (lit 1)),
         (u_kVt, Factor (lit 1000)),
         (u_MVt, Factor (lit 1000000)),
         (u_ls, Factor (lit (735499 / 1000))),
         (u_ls_angl, Factor (lit (7457 / 10)))]),
      (cat_Vremya,
        [(u_ns, Factor (lit (1 / 1000000000))),
         (u_mks, Factor (lit (1 / 1000000))),
         (u_ms, Factor (lit (1 / 1000))),
         (u_s, Factor (lit 1)),
         (u_min, Factor (lit 60)),
         (u_ch, Factor (lit 3600)),
         (u_den, Factor (lit 86400)),
         (u_nedelya, Factor (lit 604800)),
         (u_mesyac, Factor (lit 2592000)),
         (u_god, Factor (lit 31536000))])]"

subsection \<open>Messages\<close>

abbreviation msg_rates_not_loaded :: pystr where \<comment> \<open>"Kursy valyut ne zagruzheny. Snachala vyzovite fetch_rates()"\<close>
  "msg_rates_not_loaded \<equiv>
     [0x41A, 0x443, 0x440, 0x441, 0x44B, 0x20, 0x432, 0x430, 0x43B, 0x44E, 0x442, 0x20, 0x43D, 0x435, 0x20, 0x437, 0x430, 0x433, 0x440, 0x443, 0x436, 0x435, 0x43D, 0x44B, 0x2E, 0x20, 0x421, 0x43D, 0x430, 0x447, 0x430, 0x43B, 0x430, 0x20, 0x432, 0x44B, 0x437, 0x43E, 0x432, 0x438, 0x442, 0x435, 0x20, 0x66, 0x65, 0x74, 0x63, 0x68, 0x5F, 0x72, 0x61, 0x74, 0x65, 0x73, 0x28, 0x29]"

abbreviation msg_unknown_currency :: pystr where \<comment> \<open>"Neizvestnaya valyuta. Dostupnye: "\<close>
  "msg_unknown_currency \<equiv>
     [0x41D, 0x435, 0x438, 0x437, 0x432, 0x435, 0x441, 0x442, 0x43D, 0x430, 0x44F, 0x20, 0x432, 0x430, 0x43B, 0x44E, 0x442, 0x430, 0x2E, 0x20, 0x414, 0x43E, 0x441, 0x442, 0x443, 0x43F, 0x43D, 0x44B, 0x435, 0x3A, 0x20]"

abbreviation msg_unknown_unit :: pystr where \<comment> \<open>"Neizvestnaya edinica izmereniya: "\<close>
  "msg_unknown_unit \<equiv>
     [0x41D, 0x435, 0x438, 0x437, 0x432, 0x435, 0x441, 0x442, 0x43D, 0x430, 0x44F, 0x20, 0x435, 0x434, 0x438, 0x43D, 0x438, 0x446, 0x430, 0x20, 0x438, 0x437, 0x43C, 0x435, 0x440, 0x435, 0x43D, 0x438, 0x44F, 0x3A, 0x20]"

abbreviation msg_ili :: pystr where \<comment> \<open>" ili "\<close>
  "msg_ili \<equiv>
     [0x20, 0x438, 0x43B, 0x438, 0x20]"

abbreviation msg_incompatible :: pystr where \<comment> \<open>"Nesovmestimye edinicy: "\<close>
  "msg_incompatible \<equiv>
     [0x41D, 0x435, 0x441, 0x43E, 0x432, 0x43C, 0x435, 0x441, 0x442, 0x438, 0x43C, 0x44B, 0x435, 0x20, 0x435, 0x434, 0x438, 0x43D, 0x438, 0x446, 0x44B, 0x3A, 0x20]"

abbreviation msg_i :: pystr where \<comment> \<open>" i "\<close>
  "msg_i \<equiv>
     [0x20, 0x438, 0x20]"

abbreviation msg_unknown_temperature :: pystr where \<comment> \<open>"Neizvestnaya edinica temperatury: "\<close>
  "msg_unknown_temperature \<equiv>
     [0x41D, 0x435, 0x438, 0x437, 0x432, 0x435, 0x441, 0x442, 0x43D, 0x430, 0x44F, 0x20, 0x435, 0x434, 0x438, 0x43D, 0x438, 0x446, 0x430, 0x20, 0x442, 0x435, 0x43C, 0x43F, 0x435, 0x440, 0x430, 0x442, 0x443, 0x440, 0x44B, 0x3A, 0x20]"

subsection \<open>Operations\<close>

text \<open>\<open>get_unit_type\<close>: the first category, in the order of the table, that has the unit.\<close>

fun get_unit_type_in :: "(pystr \<times> (pystr \<times> factor) list) list \<Rightarrow> pystr \<Rightarrow> pystr option" where
  "get_unit_type_in [] unit = None"
| "get_unit_type_in ((unit_type, units) # rest) unit =
     (if map_of units unit \<noteq> None then Some unit_type else get_unit_type_in rest unit)"

definition get_unit_type :: "pystr \<Rightarrow> pystr option" where
  "get_unit_type unit = get_unit_type_in CONVERSION_FACTORS unit"

text \<open>\<open>not t\<close> for an optional string: true of \<open>None\<close> and of the empty string.\<close>

definition falsy :: "pystr option \<Rightarrow> bool" where
  "falsy t \<longleftrightarrow> t = None \<or> t = Some []"

definition unknown_temperature_error :: "pystr \<Rightarrow> pyerror" where
  "unknown_temperature_error unit = ValueError (msg_unknown_temperature @ unit)"

definition convert_temperature :: "pyfloat \<Rightarrow> pystr \<Rightarrow> pystr \<Rightarrow> pyerror + pyfloat" where
  "convert_temperature value from_unit to_unit =
     (case (if from_unit = u_degC then Inr value
            else if from_unit = u_degF then fdiv (fmul (fsub value (Fin 32)) (Fin 5)) (Fin 9)
            else if from_unit = u_K then Inr (fsub value (lit (27315 / 100)))
            else Inl (unknown_temperature_error from_unit)) of
        Inl e \<Rightarrow> Inl e
      | Inr celsius \<Rightarrow>
          if to_unit = u_degC then Inr celsius
          else if to_unit = u_degF then
            (case fdiv (fmul celsius (Fin 9)) (Fin 5) of
               Inl e \<Rightarrow> Inl e
             | Inr c \<Rightarrow> Inr (fadd c (Fin 32)))
          else if to_unit = u_K then Inr (fadd celsius (lit (27315 / 100)))
          else Inl (unknown_temperature_error to_unit))"
  for from_unit to_unit

definition unknown_unit_error :: "pystr \<Rightarrow> pystr \<Rightarrow> pyerror" where
  "unknown_unit_error from_unit to_unit =
     ValueError (msg_unknown_unit @ from_unit @ msg_ili @ to_unit)"
  for from_unit to_unit

definition incompatible_units_error :: "pystr \<Rightarrow> pystr \<Rightarrow> pystr \<Rightarrow> pystr \<Rightarrow> pyerror" where
  "incompatible_units_error from_unit from_unit_type to_unit to_unit_type =
     ValueError (msg_incompatible @ from_unit @ ascii '' ('' @ from_unit_type @ ascii '')''
                 @ msg_i @ to_unit @ ascii '' ('' @ to_unit_type @ ascii '')'')"
  for from_unit to_unit

text \<open>
  The linear branch: \<open>factors[from_unit]\<close> and \<open>factors[to_unit]\<close> raise \<open>KeyError\<close> on a
  missing key, and arithmetic of a number with a string raises \<open>TypeError\<close>.
\<close>

definition convert_linear :: "pyfloat \<Rightarrow> pystr \<Rightarrow> pystr \<Rightarrow> pystr \<Rightarrow> pyerror + pyfloat" where
  "convert_linear value from_unit_type from_unit to_unit =
     (case map_of CONVERSION_FACTORS from_unit_type of
        None \<Rightarrow> Inl (KeyError from_unit_type)
      | Some factors \<Rightarrow>
          (case map_of factors from_unit of
             None \<Rightarrow> Inl (KeyError from_unit)
           | Some (Marker s) \<Rightarrow> Inl TypeError
           | Some (Factor f) \<Rightarrow>
               let value_in_base = fmul value f
               in (case map_of factors to_unit of
                     None \<Rightarrow> Inl (KeyError to_unit)
                   | Some (Marker s) \<Rightarrow> Inl TypeError
                   | Some (Factor g) \<Rightarrow> fdiv value_in_base g)))"
  for from_unit to_unit

text \<open>\<open>UnitConverter.convert\<close>; \<open>now\<close> is the reading of the clock for the timestamp.\<close>

definition unit_convert :: "datetime \<Rightarrow> pyfloat \<Rightarrow> pystr \<Rightarrow> pystr \<Rightarrow> pyerror + ConversionResult" where
  "unit_convert now value from_unit to_unit =
     (let from_unit_type = get_unit_type from_unit;
          to_unit_type = get_unit_type to_unit
      in if falsy from_unit_type \<or> falsy to_unit_type
         then Inl (unknown_unit_error from_unit to_unit)
         else if from_unit_type \<noteq> to_unit_type
         then Inl (incompatible_units_error from_unit (the from_unit_type)
                     to_unit (the to_unit_type))
         else (case (if from_unit_type = Some cat_Temperatura
                     then convert_temperature value from_unit to_unit
                     else convert_linear value (the from_unit_type) from_unit to_unit) of
                 Inl e \<Rightarrow> Inl e
               | Inr r \<Rightarrow>
                   Inr \<lparr>amount = value, from_unit = from_unit, to_unit = to_unit,
                        result = r, timestamp = now, rate = None\<rparr>))"
  for from_unit to_unit


section \<open>CurrencyConverter\<close>

type_synonym rates_dict = "(pystr \<times> pyfloat) list"

text \<open>
  A \<open>dict\<close> from currency codes to rates is the list of its items in insertion order.
\<close>

text \<open>A JSON value, as \<open>json.load\<close> and \<open>response.json()\<close> return it.\<close>

datatype json =
    JsNull
  | JsBool bool
  | JsNumber pyfloat
  | JsString pystr
  | JsArray "json list"
  | JsObject "(pystr \<times> json) list"

text \<open>
  The attribute \<open>rates\<close> is annotated \<open>Dict[str, float]\<close>, and \<open>convert\<close> uses it as
  such; but \<open>_load_from_cache\<close> and \<open>fetch_rates\<close> assign to it whatever value the cache
  file or the response holds, without looking at it. The converter, the cache file and
  the response are therefore parametric in the type \<open>'r\<close> of that value: \<open>rates_dict\<close>
  for a mapping of rates, \<open>json\<close> for any JSON value.
\<close>

record 'r CurrencyConverter =
  api_key :: pystr
  base_currency :: pystr
  rates :: 'r
  last_update :: "datetime option"
  api_url :: pystr

definition CurrencyConverter_init :: "pystr \<Rightarrow> pystr \<Rightarrow> rates_dict CurrencyConverter" where
  "CurrencyConverter_init key base =
     \<lparr>api_key = key, base_currency = base, rates = [], last_update = None,
      api_url = ascii ''https://v6.exchangerate-api.com/v6/'' @ key @ ascii ''/latest/'' @ base\<rparr>"

subsection \<open>The cache file\<close>

text \<open>
  What \<open>datetime.fromisoformat\<close> makes of the \<open>timestamp\<close> entry: it raises, or it gives
  a datetime with a time zone (from which \<open>datetime.now()\<close> cannot be subtracted), or a
  naive one.
\<close>

datatype ts_field = TsNotIso | TsAware datetime | TsNaive datetime

text \<open>The entries of the JSON object in the file; \<open>None\<close> is a missing key.\<close>

record 'r cache_data =
  cd_timestamp :: "ts_field option"
  cd_base :: "pystr option"
  cd_rates :: "'r option"

text \<open>
  The file \<open>CACHE_FILE\<close>: absent; present but \<open>open\<close> fails; not JSON; JSON but not an
  object; a JSON object.
\<close>

datatype 'r cache_file =
    NoFile
  | Unopenable
  | NotJson
  | JsonNonObject
  | JsonObject "'r cache_data"

text \<open>
  The body of the \<open>try\<close> of \<open>_load_from_cache\<close>: an exception, or the converter and
  whether \<open>return True\<close> was reached.
\<close>

definition load_cache_body ::
    "'r cache_file \<Rightarrow> datetime \<Rightarrow> 'r CurrencyConverter
     \<Rightarrow> pyerror + ('r CurrencyConverter \<times> bool)" where
  "load_cache_body file now self =
     (case file of
        NoFile \<Rightarrow> Inl OSError
      | Unopenable \<Rightarrow> Inl OSError
      | NotJson \<Rightarrow> Inl JSONDecodeError
      | JsonNonObject \<Rightarrow> Inl TypeError
      | JsonObject data \<Rightarrow>
          (case cd_timestamp data of
             None \<Rightarrow> Inl (KeyError (ascii ''timestamp''))
           | Some TsNotIso \<Rightarrow> Inl (ValueError (ascii ''Invalid isoformat string''))
           | Some (TsAware cache_time) \<Rightarrow> Inl TypeError
           | Some (TsNaive cache_time) \<Rightarrow>
               if now - cache_time < timedelta_hours CACHE_DURATION_HOURS
               then (case cd_rates data of
                       None \<Rightarrow> Inl (KeyError (ascii ''rates''))
                     | Some r \<Rightarrow> Inr (self\<lparr>rates := r, last_update := Some cache_time\<rparr>, True))
               else Inr (self, False)))"

text \<open>
  \<open>_load_from_cache\<close>: \<open>except Exception\<close> catches whatever the body raises (and prints
  it); the function then returns \<open>False\<close>.
\<close>

definition load_from_cache ::
    "'r cache_file \<Rightarrow> datetime \<Rightarrow> 'r CurrencyConverter \<Rightarrow> 'r CurrencyConverter \<times> bool" where
  "load_from_cache file now self =
     (if file = NoFile then (self, False)
      else (case load_cache_body file now self of
              Inl e \<Rightarrow> (self, False)
            | Inr (self', returned) \<Rightarrow> (self', returned)))"

text \<open>
  \<open>_save_to_cache\<close>: the file after the call. Writing can fail before the file is
  touched or after it has been truncated; the exception is caught and printed.
\<close>

datatype write_outcome = WriteOk | OpenFails | DumpFails

definition save_to_cache ::
    "write_outcome \<Rightarrow> datetime \<Rightarrow> 'r cache_file \<Rightarrow> 'r CurrencyConverter \<Rightarrow> 'r cache_file" where
  "save_to_cache disk now file self =
     (case disk of
        WriteOk \<Rightarrow>
          JsonObject \<lparr>cd_timestamp = Some (TsNaive now),
                      cd_base = Some (base_currency self),
                      cd_rates = Some (rates self)\<rparr>
      | OpenFails \<Rightarrow> file
      | DumpFails \<Rightarrow> NotJson)"

subsection \<open>The remote source\<close>

text \<open>
  What the request gives: \<open>requests.get\<close> raises; \<open>raise_for_status\<close> raises;
  \<open>response.json()\<close> raises; the body is JSON but not an object; the body is a JSON
  object, of which the entries \<open>result\<close> and \<open>conversion_rates\<close> are read.
\<close>

datatype json_value = JString pystr | JOther

record 'r api_data =
  ad_result :: "json_value option"
  ad_conversion_rates :: "'r option"

datatype 'r http_response =
    TransportFailure
  | StatusError
  | BodyNotJson
  | BodyNonObject
  | BodyObject "'r api_data"

text \<open>
  The environment of one call of \<open>fetch_rates\<close>: the cache file, what the remote source
  would answer, what writing the file would do, and the readings of the clock in
  \<open>_load_from_cache\<close>, in \<open>fetch_rates\<close> and in \<open>_save_to_cache\<close>.
\<close>

record 'r world =
  w_cache :: "'r cache_file"
  w_response :: "'r http_response"
  w_write :: write_outcome
  w_now_load :: datetime
  w_now_update :: datetime
  w_now_save :: datetime

text \<open>
  The outcome of a call: the converter and the file afterwards, whether the remote
  source was contacted, and the value returned or the exception that left the call.
\<close>

record 'r fetch_outcome =
  fo_self :: "'r CurrencyConverter"
  fo_cache :: "'r cache_file"
  fo_contacted :: bool
  fo_return :: "pyerror + bool"

text \<open>
  The body of the \<open>try\<close> of \<open>fetch_rates\<close>. No assignment precedes a \<open>raise\<close> in it, so
  an exception leaves the converter and the file as they were.
\<close>

definition fetch_body ::
    "'r world \<Rightarrow> 'r CurrencyConverter
     \<Rightarrow> pyerror + ('r CurrencyConverter \<times> 'r cache_file \<times> bool)" where
  "fetch_body w self =
     (case w_response w of
        TransportFailure \<Rightarrow> Inl RequestException
      | StatusError \<Rightarrow> Inl RequestException
      | BodyNotJson \<Rightarrow> Inl JSONDecodeError
      | BodyNonObject \<Rightarrow> Inl TypeError
      | BodyObject data \<Rightarrow>
          (case ad_result data of
             None \<Rightarrow> Inl (KeyError (ascii ''result''))
           | Some res \<Rightarrow>
               if res = JString (ascii ''success'')
               then (case ad_conversion_rates data of
                       None \<Rightarrow> Inl (KeyError (ascii ''conversion_rates''))
                     | Some r \<Rightarrow>
                         let self' = self\<lparr>rates := r, last_update := Some (w_now_update w)\<rparr>
                         in Inr (self', save_to_cache (w_write w) (w_now_save w) (w_cache w) self',
                                 True))
               else Inr (self, w_cache w, False)))"

text \<open>The two \<open>except\<close> clauses of \<open>fetch_rates\<close>.\<close>

definition caught_by_fetch :: "pyerror \<Rightarrow> bool" where
  "caught_by_fetch e \<longleftrightarrow> e = RequestException \<or> e = JSONDecodeError"

definition fetch_rates :: "'r world \<Rightarrow> 'r CurrencyConverter \<Rightarrow> 'r fetch_outcome" where
  "fetch_rates w self =
     (case load_from_cache (w_cache w) (w_now_load w) self of
        (self', True) \<Rightarrow>
          \<lparr>fo_self = self', fo_cache = w_cache w, fo_contacted = False, fo_return = Inr True\<rparr>
      | (self', False) \<Rightarrow>
          (case fetch_body w self' of
             Inl e \<Rightarrow>
               \<lparr>fo_self = self', fo_cache = w_cache w, fo_contacted = True,
                fo_return = (if caught_by_fetch e then Inr False else Inl e)\<rparr>
           | Inr (self'', file, ok) \<Rightarrow>
               \<lparr>fo_self = self'', fo_cache = file, fo_contacted = True, fo_return = Inr ok\<rparr>))"

subsection \<open>Conversion\<close>

fun join :: "pystr \<Rightarrow> pystr list \<Rightarrow> pystr" where
  "join sep [] = []"
| "join sep [x] = x"
| "join sep (x # y # ys) = x @ sep @ join sep (y # ys)"

definition unknown_currency_error :: "rates_dict \<Rightarrow> pyerror" where
  "unknown_currency_error rs =
     (let available = take 20 (map fst rs)
      in ValueError (msg_unknown_currency @ join (ascii '', '') available @ ascii ''...''))"

text \<open>
  \<open>CurrencyConverter.convert\<close>. \<open>upper\<close> is \<open>str.upper\<close> and \<open>now\<close> the reading of the
  clock for the timestamp. Each branch binds the local variable \<open>rate\<close>; the last
  expression, \<open>rate if 'rate' in locals() else self.rates[to_currency]\<close>, reads it.
\<close>

definition currency_convert ::
    "(pystr \<Rightarrow> pystr) \<Rightarrow> rates_dict CurrencyConverter \<Rightarrow> datetime \<Rightarrow> pystr \<Rightarrow> pystr
     \<Rightarrow> pyfloat
     \<Rightarrow> pyerror + ConversionResult" where
  "currency_convert upper self now from_currency to_currency amount =
     (if rates self = [] then Inl (ValueError msg_rates_not_loaded)
      else
        let from_currency = upper from_currency;
            to_currency = upper to_currency
        in (case (map_of (rates self) from_currency, map_of (rates self) to_currency) of
              (Some rate_from, Some rate_to) \<Rightarrow>
                (case (if from_currency = base_currency self
                       then Inr (fmul amount rate_to, Some rate_to)
                       else if to_currency = base_currency self
                       then (case fdiv (Fin 1) rate_from of
                               Inl e \<Rightarrow> Inl e
                             | Inr rate \<Rightarrow> Inr (fmul amount rate, Some rate))
                       else (case fdiv amount rate_from of
                               Inl e \<Rightarrow> Inl e
                             | Inr amount_in_base \<Rightarrow>
                                 let result = fmul amount_in_base rate_to
                                 in (case fdiv result amount of
                                       Inl e \<Rightarrow> Inl e
                                     | Inr rate \<Rightarrow> Inr (result, Some rate)))) of
                   Inl e \<Rightarrow> Inl e
                 | Inr (result, rate_local) \<Rightarrow>
                     Inr \<lparr>amount = amount, from_unit = from_currency, to_unit = to_currency,
                          result = result, timestamp = now,
                          rate = Some (case rate_local of
                                         Some rate \<Rightarrow> rate
                                       | None \<Rightarrow> rate_to)\<rparr>)
            | _ \<Rightarrow> Inl (unknown_currency_error (rates self))))"
  for amount result rate

definition get_available_currencies :: "rates_dict CurrencyConverter \<Rightarrow> pystr list" where
  "get_available_currencies self = map fst (rates self)"


section \<open>Notions of the specification\<close>

subsection \<open>Units and categories\<close>

text \<open>A unit belongs to a category when the category's entry of the table has it.\<close>

definition belongs_to :: "pystr \<Rightarrow> pystr \<Rightarrow> bool" where
  "belongs_to unit c \<longleftrightarrow>
     list_ex (\<lambda>(c', units). c' = c \<and> unit \<in> fst ` set units) CONVERSION_FACTORS"

definition known_unit :: "pystr \<Rightarrow> bool" where
  "known_unit unit \<longleftrightarrow> list_ex (\<lambda>(c, units). unit \<in> fst ` set units) CONVERSION_FACTORS"

text \<open>\<open>factor[u]\<close>: the entry of unit \<open>u\<close> in category \<open>c\<close>.\<close>

definition factor_of :: "pystr \<Rightarrow> pystr \<Rightarrow> factor option" where
  "factor_of c unit =
     (case map_of CONVERSION_FACTORS c of None \<Rightarrow> None | Some units \<Rightarrow> map_of units unit)"

text \<open>
  The two kinds of error of \<open>UnitConverter.convert\<close>. Both are a \<open>ValueError\<close> in the
  program; they differ in the message.
\<close>

definition starts_with :: "pystr \<Rightarrow> pystr \<Rightarrow> bool" where
  "starts_with p m \<longleftrightarrow> take (length p) m = p"

definition is_unknown_unit_error :: "pyerror \<Rightarrow> bool" where
  "is_unknown_unit_error e \<longleftrightarrow>
     (case e of ValueError m \<Rightarrow> starts_with msg_unknown_unit m | _ \<Rightarrow> False)"

definition is_incompatible_units_error :: "pyerror \<Rightarrow> bool" where
  "is_incompatible_units_error e \<longleftrightarrow>
     (case e of ValueError m \<Rightarrow> starts_with msg_incompatible m | _ \<Rightarrow> False)"

subsection \<open>Temperature\<close>

text \<open>
  The two steps of the affine conversion, as the specification words them: to Celsius
  (identity, \<open>(F - 32) * 5 / 9\<close>, \<open>K - 273.15\<close>) and from Celsius (identity,
  \<open>C * 9 / 5 + 32\<close>, \<open>C + 273.15\<close>), in floating point arithmetic, left to right.
\<close>

definition temperature_units :: "pystr list" where
  "temperature_units = [u_degC, u_degF, u_K]"

definition to_celsius :: "pystr \<Rightarrow> pyfloat \<Rightarrow> pyfloat" where
  "to_celsius unit x =
     (if unit = u_degC then x
      else if unit = u_degF then fquot (fmul (fsub x (Fin 32)) (Fin 5)) (Fin 9)
      else fsub x (lit (27315 / 100)))"

definition from_celsius :: "pystr \<Rightarrow> pyfloat \<Rightarrow> pyfloat" where
  "from_celsius unit c =
     (if unit = u_degC then c
      else if unit = u_degF then fadd (fquot (fmul c (Fin 9)) (Fin 5)) (Fin 32)
      else fadd c (lit (27315 / 100)))"

subsection \<open>The cache\<close>






subsection \<open>Sample data\<close>

text \<open>\<open>str.upper\<close> on strings of ASCII characters.\<close>

definition ascii_upper :: "pystr \<Rightarrow> pystr" where
  "ascii_upper s = map (\<lambda>c. if 97 \<le> c \<and> c \<le> 122 then c - 32 else c) s"

text \<open>The rates of \<open>setup_demo_mode\<close>, relative to the rouble.\<close>

definition demo_rates :: rates_dict where
  "demo_rates =
     [(ascii ''USD'', lit (11 / 1000)), (ascii ''EUR'', lit (10 / 1000)),
      (ascii ''GBP'', lit (85 / 10000)), (ascii ''JPY'', lit (165 / 100)),
      (ascii ''CNY'', lit (79 / 1000)), (ascii ''RUB'', lit 1),
      (ascii ''CAD'', lit (15 / 1000)), (ascii ''AUD'', lit (16 / 1000)),
      (ascii ''CHF'', lit (95 / 10000)), (ascii ''INR'', lit (92 / 100)),
      (ascii ''BRL'', lit (55 / 1000)), (ascii ''MXN'', lit (18 / 100)),
      (ascii ''UAH'', lit (42 / 100)), (ascii ''KZT'', lit (515 / 100)),
      (ascii ''BYN'', lit (35 / 1000))]"

definition demo_converter :: "rates_dict CurrencyConverter" where
  "demo_converter = (CurrencyConverter_init API_KEY BASE_CURRENCY)\<lparr>rates := demo_rates\<rparr>"

text \<open>A cache file written at time \<open>t\<close> for the base currency \<open>base\<close>.\<close>

definition sample_cache :: "datetime \<Rightarrow> pystr \<Rightarrow> rates_dict cache_file" where
  "sample_cache t base =
     JsonObject \<lparr>cd_timestamp = Some (TsNaive t), cd_base = Some base,
                 cd_rates = Some demo_rates\<rparr>"





section \<open>Floating point: auxiliary facts\<close>

lemma pow2_pos: "0 < pow2 k"
  by (simp add: pow2_def)

lemma pow2_mono: "j \<le> k \<Longrightarrow> pow2 j \<le> pow2 k"
proof -
  assume jk: "j \<le> k"
  have e: "pow2 i = 2 powi i" for i
    by (simp add: pow2_def power_int_def power_one_over)
  show ?thesis unfolding e using jk by (rule power_int_increasing) simp
qed

lemma bitlen_ge1: "0 < x \<Longrightarrow> 1 \<le> bitlen x"
proof -
  assume "0 < x"
  then have "bitlen x = bitlen (x div 2) + 1" by (subst compute_bitlen) simp
  then show ?thesis using bitlen_nonneg [of "x div 2"] by linarith
qed

lemma ilog2_le:
  assumes "0 < a"
  shows "pow2 (ilog2 a) \<le> a"
proof (cases "1 \<le> a")
  case True
  then have pos: "0 < \<lfloor>a\<rfloor>" by linarith
  define k where "k = bitlen \<lfloor>a\<rfloor>"
  have k1: "1 \<le> k" unfolding k_def using pos by (rule bitlen_ge1)
  from bitlen_bounds [OF pos] have b: "2 ^ nat (k - 1) \<le> \<lfloor>a\<rfloor>" by (simp only: k_def)
  have "pow2 (ilog2 a) = pow2 (k - 1)" using True by (simp only: ilog2_def k_def if_True)
  also have "\<dots> = 2 ^ nat (k - 1)" using k1 by (simp only: pow2_def) simp
  also have "\<dots> = of_int (2 ^ nat (k - 1))" by simp
  also have "\<dots> \<le> of_int \<lfloor>a\<rfloor>" using b by (simp only: of_int_le_iff)
  also have "\<dots> \<le> a" by (rule of_int_floor_le)
  finally show ?thesis .
next
  case False
  define x where "x = \<lceil>1 / a\<rceil> - 1"
  define k where "k = bitlen x"
  from False assms have "1 < 1 / a" by simp
  then have "2 \<le> \<lceil>1 / a\<rceil>" by linarith
  then have pos: "0 < x" by (simp add: x_def)
  from bitlen_bounds [OF pos] have b: "x < 2 ^ nat k" by (simp only: k_def)
  have k1: "1 \<le> k" unfolding k_def using pos by (rule bitlen_ge1)
  from b have "\<lceil>1 / a\<rceil> \<le> 2 ^ nat k" by (simp add: x_def)
  then have "1 / a \<le> of_int (2 ^ nat k)" by (simp only: ceiling_le_iff)
  then have "1 / a \<le> 2 ^ nat k" by simp
  then have "1 \<le> 2 ^ nat k * a" using assms by (simp add: field_simps)
  then have le: "1 / 2 ^ nat k \<le> a" by (simp add: field_simps)
  have "pow2 (ilog2 a) = pow2 (- k)" using False by (simp only: ilog2_def k_def x_def if_False)
  also have "\<dots> = 1 / 2 ^ nat k" using k1 by (simp only: pow2_def) simp
  finally show ?thesis using le by simp
qed

lemma round_even_ge: "\<lfloor>z\<rfloor> \<le> round_even z"
  by (simp add: round_even_def Let_def)

lemma round_double_nonzero:
  assumes "pow2 (- 1022) \<le> \<bar>q\<bar>"
  shows "round_double q \<noteq> Fin 0"
proof -
  define a where "a = \<bar>q\<bar>"
  define e where "e = max (ilog2 a) (- 1022)"
  define ulp where "ulp = pow2 (e - 52)"
  define m where "m = round_even (a / ulp)"
  have apos: "0 < a" using assms pow2_pos [of "- 1022"] by (simp add: a_def)
  then have q0: "q \<noteq> 0" by (auto simp: a_def)
  have upos: "0 < ulp" by (simp add: ulp_def pow2_pos)
  have "pow2 e \<le> a"
  proof (cases "ilog2 a \<le> - 1022")
    case True
    then have "e = - 1022" by (simp add: e_def)
    then show ?thesis using assms by (simp add: a_def)
  next
    case False
    then have "e = ilog2 a" by (simp add: e_def)
    then show ?thesis using ilog2_le [OF apos] by simp
  qed
  moreover have "ulp \<le> pow2 e" unfolding ulp_def by (rule pow2_mono) simp
  ultimately have "ulp \<le> a" by simp
  then have "1 \<le> a / ulp" using upos by (simp add: field_simps)
  then have fl: "1 \<le> \<lfloor>a / ulp\<rfloor>" by linarith
  have "1 \<le> m" unfolding m_def using fl round_even_ge [of "a / ulp"] by (rule order_trans)
  then have rpos: "0 < of_int m * ulp" using upos by simp
  have "round_double q =
      (if pow2 1024 \<le> of_int m * ulp then (if 0 < q then PInf else NInf)
       else Fin (if 0 < q then of_int m * ulp else - (of_int m * ulp)))"
    unfolding round_double_def Let_def m_def ulp_def e_def a_def using q0 by (simp only: if_False)
  then show ?thesis using rpos by (auto split: if_splits)
qed

lemma lit_nonzero:
  assumes "1 / 10 ^ 20 \<le> \<bar>q\<bar>"
  shows "lit q \<noteq> Fin 0"
proof -
  have "pow2 (- 1022) \<le> 1 / 10 ^ 20" by (simp add: pow2_def)
  from this assms have "pow2 (- 1022) \<le> \<bar>q\<bar>" by (rule order_trans)
  then show ?thesis unfolding lit_def by (rule round_double_nonzero)
qed


section \<open>The factor table: auxiliary facts\<close>

lemma table_keys_distinct:
  "distinct (concat (map (\<lambda>(c, units). map fst units) CONVERSION_FACTORS))"
  by (simp add: CONVERSION_FACTORS_def)

lemma table_categories_distinct: "distinct (map fst CONVERSION_FACTORS)"
  by (simp add: CONVERSION_FACTORS_def)

lemma table_categories_nonempty: "list_all (\<lambda>(c, units). c \<noteq> []) CONVERSION_FACTORS"
  by (simp add: CONVERSION_FACTORS_def)

lemma table_linear_factors:
  "list_all (\<lambda>(c, units). c = cat_Temperatura \<or>
      list_all (\<lambda>(u, fa). \<exists>f. fa = Factor f \<and> f \<noteq> Fin 0) units) CONVERSION_FACTORS"
  by (simp add: CONVERSION_FACTORS_def lit_nonzero)

lemma table_temperature:
  "map_of CONVERSION_FACTORS cat_Temperatura =
     Some [(u_degC, Marker (ascii ''celsius'')), (u_degF, Marker (ascii ''fahrenheit'')),
           (u_K, Marker (ascii ''kelvin''))]"
  by (simp add: CONVERSION_FACTORS_def)

lemma get_unit_type_in_Some:
  "distinct (concat (map (\<lambda>(c, units). map fst units) T)) \<Longrightarrow> (c, units) \<in> set T \<Longrightarrow>
   u \<in> fst ` set units \<Longrightarrow> get_unit_type_in T u = Some c"
proof (induction T)
  case Nil
  then show ?case by simp
next
  case (Cons p T)
  obtain c0 us0 where p: "p = (c0, us0)" by (cases p)
  show ?case
  proof (cases "(c, units) = p")
    case True
    with Cons.prems p show ?thesis by (auto simp: map_of_eq_None_iff)
  next
    case False
    with Cons.prems have mem: "(c, units) \<in> set T" by simp
    from Cons.prems(1) p have d: "distinct (concat (map (\<lambda>(c, units). map fst units) T))"
      and disj: "set (map fst us0) \<inter> set (concat (map (\<lambda>(c, units). map fst units) T)) = {}"
      by simp_all
    from mem Cons.prems(3) have "u \<in> set (concat (map (\<lambda>(c, units). map fst units) T))"
      by force
    with disj have "u \<notin> fst ` set us0" by auto
    then have "map_of us0 u = None" by (simp add: map_of_eq_None_iff)
    with p Cons.IH [OF d mem Cons.prems(3)] show ?thesis by simp
  qed
qed

lemma get_unit_type_in_None:
  "get_unit_type_in T u = None \<longleftrightarrow> \<not> list_ex (\<lambda>(c, units). u \<in> fst ` set units) T"
proof (induction T)
  case Nil
  then show ?case by simp
next
  case (Cons p T)
  obtain c0 us0 where p: "p = (c0, us0)" by (cases p)
  show ?case
  proof (cases "u \<in> fst ` set us0")
    case True
    then have "map_of us0 u \<noteq> None" by (simp add: map_of_eq_None_iff)
    with True p show ?thesis by simp
  next
    case False
    then have "map_of us0 u = None" by (simp add: map_of_eq_None_iff)
    with False p Cons.IH show ?thesis by simp
  qed
qed

lemma belongs_to_iff:
  "belongs_to u c \<longleftrightarrow> (\<exists>units. (c, units) \<in> set CONVERSION_FACTORS \<and> u \<in> fst ` set units)"
  by (auto simp: belongs_to_def list_ex_iff)

lemma known_unit_iff: "known_unit u \<longleftrightarrow> (\<exists>c. belongs_to u c)"
  by (auto simp: known_unit_def belongs_to_def list_ex_iff)

lemma get_unit_type_belongs: "belongs_to u c \<Longrightarrow> get_unit_type u = Some c"
  unfolding belongs_to_iff get_unit_type_def
  using get_unit_type_in_Some [OF table_keys_distinct] by blast

lemma get_unit_type_unknown: "\<not> known_unit u \<Longrightarrow> get_unit_type u = None"
  by (simp add: get_unit_type_def known_unit_def get_unit_type_in_None)

lemma belongs_to_unique: "belongs_to u c \<Longrightarrow> belongs_to u c' \<Longrightarrow> c = c'"
proof -
  assume a: "belongs_to u c" and b: "belongs_to u c'"
  from get_unit_type_belongs [OF a] get_unit_type_belongs [OF b] show ?thesis by simp
qed

lemma belongs_to_nonempty: "belongs_to u c \<Longrightarrow> c \<noteq> []"
  using table_categories_nonempty by (auto simp: belongs_to_iff list_all_iff)

lemma belongs_to_map_of:
  "belongs_to u c \<Longrightarrow> \<exists>units fa. map_of CONVERSION_FACTORS c = Some units \<and> map_of units u = Some fa
      \<and> (u, fa) \<in> set units"
proof -
  assume "belongs_to u c"
  then obtain units where m: "(c, units) \<in> set CONVERSION_FACTORS" and u: "u \<in> fst ` set units"
    by (auto simp: belongs_to_iff)
  from m have "map_of CONVERSION_FACTORS c = Some units"
    using table_categories_distinct by simp
  moreover from u obtain fa where "map_of units u = Some fa"
    by (cases "map_of units u") (auto simp: map_of_eq_None_iff)
  moreover from this have "(u, fa) \<in> set units" by (rule map_of_SomeD)
  ultimately show ?thesis by blast
qed

lemma linear_factor:
  assumes "belongs_to u c" "c \<noteq> cat_Temperatura"
  shows "\<exists>f. factor_of c u = Some (Factor f) \<and> f \<noteq> Fin 0"
proof -
  from belongs_to_map_of [OF assms(1)] obtain units fa where
    m: "map_of CONVERSION_FACTORS c = Some units" and f: "map_of units u = Some fa"
    and mem: "(u, fa) \<in> set units" by blast
  from m have "(c, units) \<in> set CONVERSION_FACTORS" by (rule map_of_SomeD)
  with table_linear_factors assms(2) mem have "\<exists>f. fa = Factor f \<and> f \<noteq> Fin 0"
    by (fastforce simp: list_all_iff)
  with m f show ?thesis by (auto simp: factor_of_def)
qed

lemma unit_convert_linear:
  assumes "belongs_to u c" "belongs_to v c" "c \<noteq> cat_Temperatura"
  shows "\<exists>f g. factor_of c u = Some (Factor f) \<and> factor_of c v = Some (Factor g) \<and> g \<noteq> Fin 0 \<and>
           unit_convert now x u v =
             Inr \<lparr>amount = x, from_unit = u, to_unit = v, result = fquot (fmul x f) g,
                  timestamp = now, rate = None\<rparr>"
proof -
  from linear_factor [OF assms(1,3)] obtain f where f: "factor_of c u = Some (Factor f)" by blast
  from linear_factor [OF assms(2,3)] obtain g where g: "factor_of c v = Some (Factor g)"
    and g0: "g \<noteq> Fin 0" by blast
  from f obtain units where m: "map_of CONVERSION_FACTORS c = Some units"
    and fu: "map_of units u = Some (Factor f)"
    by (auto simp: factor_of_def split: option.splits)
  from g m have gv: "map_of units v = Some (Factor g)" by (simp add: factor_of_def)
  have tu: "get_unit_type u = Some c" using assms(1) by (rule get_unit_type_belongs)
  have tv: "get_unit_type v = Some c" using assms(2) by (rule get_unit_type_belongs)
  have ne: "c \<noteq> []" using assms(1) by (rule belongs_to_nonempty)
  have "convert_linear x c u v = Inr (fquot (fmul x f) g)"
    using m fu gv g0 by (simp add: convert_linear_def fdiv_def)
  then have "unit_convert now x u v =
      Inr \<lparr>amount = x, from_unit = u, to_unit = v, result = fquot (fmul x f) g,
           timestamp = now, rate = None\<rparr>"
    using tu tv ne assms(3) by (simp add: unit_convert_def falsy_def)
  with f g g0 show ?thesis by blast
qed


lemma get_unit_type_temperature:
  "u \<in> set temperature_units \<Longrightarrow> get_unit_type u = Some cat_Temperatura"
proof -
  have "get_unit_type u_degC = Some cat_Temperatura"
    by (simp add: get_unit_type_def CONVERSION_FACTORS_def)
  moreover have "get_unit_type u_degF = Some cat_Temperatura"
    by (simp add: get_unit_type_def CONVERSION_FACTORS_def)
  moreover have "get_unit_type u_K = Some cat_Temperatura"
    by (simp add: get_unit_type_def CONVERSION_FACTORS_def)
  moreover assume "u \<in> set temperature_units"
  ultimately show ?thesis by (auto simp: temperature_units_def)
qed

lemma convert_temperature_eq:
  assumes "u \<in> set temperature_units" "v \<in> set temperature_units"
  shows "convert_temperature x u v = Inr (from_celsius v (to_celsius u x))"
proof -
  have nine: "Fin 9 \<noteq> Fin 0" and five: "Fin 5 \<noteq> Fin 0" by simp_all
  from assms(1) have u: "u = u_degC \<or> u = u_degF \<or> u = u_K" by (simp add: temperature_units_def)
  from assms(2) have v: "v = u_degC \<or> v = u_degF \<or> v = u_K" by (simp add: temperature_units_def)
  from u v show ?thesis
    by (elim disjE) (simp_all add: convert_temperature_def to_celsius_def from_celsius_def fdiv_def)
qed

lemma unit_convert_temperature:
  assumes "u \<in> set temperature_units" "v \<in> set temperature_units"
  shows "unit_convert now x u v =
           Inr \<lparr>amount = x, from_unit = u, to_unit = v,
                result = from_celsius v (to_celsius u x), timestamp = now, rate = None\<rparr>"
  using get_unit_type_temperature [OF assms(1)] get_unit_type_temperature [OF assms(2)]
    convert_temperature_eq [OF assms]
  by (simp add: unit_convert_def falsy_def)

lemma belongs_to_temperature: "belongs_to u cat_Temperatura \<longleftrightarrow> u \<in> set temperature_units"
  by (simp add: belongs_to_def temperature_units_def CONVERSION_FACTORS_def)


section \<open>The cache and the error messages: auxiliary facts\<close>






lemma unknown_unit_error_kind:
  "is_unknown_unit_error (unknown_unit_error u v) \<and>
   \<not> is_incompatible_units_error (unknown_unit_error u v)"
  by (simp add: is_unknown_unit_error_def is_incompatible_units_error_def unknown_unit_error_def
      starts_with_def)

lemma incompatible_units_error_kind:
  "is_incompatible_units_error (incompatible_units_error u c v c') \<and>
   \<not> is_unknown_unit_error (incompatible_units_error u c v c')"
  by (simp add: is_unknown_unit_error_def is_incompatible_units_error_def
      incompatible_units_error_def starts_with_def)

lemma incompatible_units_error_names:
  "\<exists>m. incompatible_units_error u c v c' = ValueError m \<and> sublist c m \<and> sublist c' m"
proof -
  define m where "m = msg_incompatible @ u @ ascii '' ('' @ c @ ascii '')''
                 @ msg_i @ v @ ascii '' ('' @ c' @ ascii '')''"
  have "m = (msg_incompatible @ u @ ascii '' ('') @ c @ (ascii '')'' @ msg_i @ v @ ascii '' (''
              @ c' @ ascii '')'')"
    by (simp add: m_def)
  then have 1: "sublist c m" unfolding sublist_def by blast
  have "m = (msg_incompatible @ u @ ascii '' ('' @ c @ ascii '')'' @ msg_i @ v @ ascii '' ('')
              @ c' @ ascii '')''"
    by (simp add: m_def)
  then have 2: "sublist c' m" unfolding sublist_def by blast
  have "incompatible_units_error u c v c' = ValueError m"
    by (simp add: incompatible_units_error_def m_def)
  with 1 2 show ?thesis by blast
qed

lemma unit_convert_unknown:
  "\<not> known_unit u \<or> \<not> known_unit v \<Longrightarrow> unit_convert now x u v = Inl (unknown_unit_error u v)"
  by (auto simp: unit_convert_def falsy_def Let_def dest: get_unit_type_unknown)

lemma unit_convert_incompatible:
  assumes "belongs_to u c" "belongs_to v c'" "c \<noteq> c'"
  shows "unit_convert now x u v = Inl (incompatible_units_error u c v c')"
  using get_unit_type_belongs [OF assms(1)] get_unit_type_belongs [OF assms(2)]
    belongs_to_nonempty [OF assms(1)] belongs_to_nonempty [OF assms(2)] assms(3)
  by (simp add: unit_convert_def falsy_def)

lemma unit_convert_same_category:
  assumes "belongs_to u c" "belongs_to v c"
  shows "\<exists>r. unit_convert now x u v = Inr r"
proof (cases "c = cat_Temperatura")
  case True
  with assms have "u \<in> set temperature_units" "v \<in> set temperature_units"
    by (simp_all add: belongs_to_temperature)
  from unit_convert_temperature [OF this] show ?thesis by blast
next
  case False
  from unit_convert_linear [OF assms False, of now x] show ?thesis by blast
qed

section \<open>Floating point: the values that the claims name\<close>

lemma round_double_0: "round_double 0 = Fin 0"
  by (simp add: round_double_def)

lemma lit_0_01: "lit (1 / 100) = Fin (5764607523034235 / 576460752303423488)"
  unfolding lit_def round_double_def Let_def
  apply (simp add: ilog2_def compute_bitlen)
  apply (simp add: pow2_def)
  apply (simp add: round_even_def Let_def)
  done

lemma fmul_7_cm:
  "fmul (Fin 7) (Fin (5764607523034235 / 576460752303423488))
     = Fin (1261007895663739 / 18014398509481984)"
  unfolding fmul.simps round_double_def Let_def
  apply (simp add: ilog2_def compute_bitlen)
  apply (simp add: pow2_def)
  apply (simp add: round_even_def Let_def)
  done

lemma fquot_7_cm:
  "fquot (Fin (1261007895663739 / 18014398509481984))
         (Fin (5764607523034235 / 576460752303423488))
     = Fin (7881299347898369 / 1125899906842624)"
  unfolding fquot.simps round_double_def Let_def
  apply (simp add: ilog2_def compute_bitlen)
  apply (simp add: pow2_def)
  apply (simp add: round_even_def Let_def)
  done

lemma is_double_7: "is_double 7"
  unfolding is_double_def round_double_def Let_def
  apply (simp add: ilog2_def compute_bitlen)
  apply (simp add: pow2_def)
  apply (simp add: round_even_def Let_def)
  done

lemma lit_0_011: "lit (11 / 1000) = Fin (3170534137668829 / 288230376151711744)"
  unfolding lit_def round_double_def Let_def
  apply (simp add: ilog2_def compute_bitlen)
  apply (simp add: pow2_def)
  apply (simp add: round_even_def Let_def)
  done

lemma fquot_1_usd:
  "fquot (Fin 1) (Fin (3170534137668829 / 288230376151711744))
     = Fin (6397158561605819 / 70368744177664)"
  unfolding fquot.simps round_double_def Let_def
  apply (simp add: ilog2_def compute_bitlen)
  apply (simp add: pow2_def)
  apply (simp add: round_even_def Let_def)
  done

lemma fmul_5_usd:
  "fmul (Fin 5) (Fin (6397158561605819 / 70368744177664))
     = Fin (3998224101003637 / 8796093022208)"
  unfolding fmul.simps round_double_def Let_def
  apply (simp add: ilog2_def compute_bitlen)
  apply (simp add: pow2_def)
  apply (simp add: round_even_def Let_def)
  done

lemma fquot_5_usd:
  "fquot (Fin 5) (Fin (3170534137668829 / 288230376151711744))
     = Fin (7996448202007273 / 17592186044416)"
  unfolding fquot.simps round_double_def Let_def
  apply (simp add: ilog2_def compute_bitlen)
  apply (simp add: pow2_def)
  apply (simp add: round_even_def Let_def)
  done

lemma lit_273_15: "lit (27315 / 100) = Fin (2402652809016115 / 8796093022208)"
  unfolding lit_def round_double_def Let_def
  apply (simp add: ilog2_def compute_bitlen)
  apply (simp add: pow2_def)
  apply (simp add: round_even_def Let_def)
  done

lemma double_273_15:
  "round_double (2402652809016115 / 8796093022208) = Fin (2402652809016115 / 8796093022208)"
  unfolding round_double_def Let_def
  apply (simp add: ilog2_def compute_bitlen)
  apply (simp add: pow2_def)
  apply (simp add: round_even_def Let_def)
  done

lemma double_900: "round_double 900 = Fin 900"
  unfolding round_double_def Let_def
  apply (simp add: ilog2_def compute_bitlen)
  apply (simp add: pow2_def)
  apply (simp add: round_even_def Let_def)
  done

lemma double_180: "round_double 180 = Fin 180"
  unfolding round_double_def Let_def
  apply (simp add: ilog2_def compute_bitlen)
  apply (simp add: pow2_def)
  apply (simp add: round_even_def Let_def)
  done

lemma double_212: "round_double 212 = Fin 212"
  unfolding round_double_def Let_def
  apply (simp add: ilog2_def compute_bitlen)
  apply (simp add: pow2_def)
  apply (simp add: round_even_def Let_def)
  done

lemma lit_1: "lit 1 = Fin 1"
  unfolding lit_def round_double_def Let_def
  apply (simp add: ilog2_def compute_bitlen)
  apply (simp add: pow2_def)
  apply (simp add: round_even_def Let_def)
  done

section \<open>Currency conversion: auxiliary facts\<close>

lemma currency_convert_policy:
  assumes "map_of (rates self) (upper f) = Some rf" "map_of (rates self) (upper t) = Some rt"
  shows "currency_convert upper self now f t a =
     (if upper f = base_currency self then
        Inr \<lparr>amount = a, from_unit = upper f, to_unit = upper t, result = fmul a rt,
             timestamp = now, rate = Some rt\<rparr>
      else if upper t = base_currency self then
        (if rf = Fin 0 then Inl ZeroDivisionError
         else Inr \<lparr>amount = a, from_unit = upper f, to_unit = upper t,
                   result = fmul a (fquot (Fin 1) rf), timestamp = now,
                   rate = Some (fquot (Fin 1) rf)\<rparr>)
      else if rf = Fin 0 \<or> a = Fin 0 then Inl ZeroDivisionError
      else Inr \<lparr>amount = a, from_unit = upper f, to_unit = upper t,
                result = fmul (fquot a rf) rt, timestamp = now,
                rate = Some (fquot (fmul (fquot a rf) rt) a)\<rparr>)"
proof -
  from assms(1) have "rates self \<noteq> []" by auto
  with assms show ?thesis
    by (simp add: currency_convert_def Let_def fdiv_def)
qed

lemma demo_lookup:
  "map_of (rates demo_converter) (ascii_upper (ascii ''USD'')) = Some (lit (11 / 1000))"
  "map_of (rates demo_converter) (ascii_upper (ascii ''usd'')) = Some (lit (11 / 1000))"
  "map_of (rates demo_converter) (ascii_upper (ascii ''EUR'')) = Some (lit (10 / 1000))"
  "map_of (rates demo_converter) (ascii_upper (ascii ''GBP'')) = Some (lit (85 / 10000))"
  "map_of (rates demo_converter) (ascii_upper (ascii ''JPY'')) = Some (lit (165 / 100))"
  "map_of (rates demo_converter) (ascii_upper (ascii ''RUB'')) = Some (lit 1)"
  "map_of (rates demo_converter) (ascii_upper (ascii ''rub'')) = Some (lit 1)"
  unfolding demo_converter_def CurrencyConverter_init_def demo_rates_def ascii_def
    ascii_upper_def
  by simp_all

lemma demo_base:
  "base_currency demo_converter = ascii ''RUB''"
  "ascii_upper (ascii ''USD'') = ascii ''USD''"
  "ascii_upper (ascii ''EUR'') = ascii ''EUR''"
  "ascii_upper (ascii ''GBP'') = ascii ''GBP''"
  "ascii_upper (ascii ''JPY'') = ascii ''JPY''"
  "ascii_upper (ascii ''RUB'') = ascii ''RUB''"
  "ascii_upper (ascii ''usd'') = ascii ''USD''"
  "ascii_upper (ascii ''rub'') = ascii ''RUB''"
  "ascii ''USD'' \<noteq> ascii ''RUB''"
  "ascii ''EUR'' \<noteq> ascii ''RUB''"
  "ascii ''GBP'' \<noteq> ascii ''RUB''"
  "ascii ''JPY'' \<noteq> ascii ''RUB''"
  unfolding demo_converter_def CurrencyConverter_init_def BASE_CURRENCY_def ascii_def
    ascii_upper_def
  by simp_all

section \<open>The claims\<close>


text \<open>
  C1. For temperature units \<open>u\<close>, \<open>v\<close> and every value \<open>x\<close>, the result of
  \<open>UnitConverter.convert(x, u, v)\<close> is the two-step affine computation: \<open>x\<close> to Celsius,
  then Celsius to \<open>v\<close>. In particular 0 degrees Celsius are 273.15 Kelvin, 32 degrees
  Fahrenheit are 0 degrees Celsius, and 100 degrees Celsius are 212 degrees Fahrenheit.
\<close>

theorem C1_temperature:
  "(u \<in> set temperature_units \<and> v \<in> set temperature_units \<longrightarrow>
      unit_convert now x u v =
        Inr \<lparr>amount = x, from_unit = u, to_unit = v,
             result = from_celsius v (to_celsius u x), timestamp = now, rate = None\<rparr>) \<and>
   unit_convert now (Fin 0) u_degC u_K =
     Inr \<lparr>amount = Fin 0, from_unit = u_degC, to_unit = u_K,
          result = lit (27315 / 100), timestamp = now, rate = None\<rparr> \<and>
   unit_convert now (Fin 32) u_degF u_degC =
     Inr \<lparr>amount = Fin 32, from_unit = u_degF, to_unit = u_degC,
          result = Fin 0, timestamp = now, rate = None\<rparr> \<and>
   unit_convert now (Fin 100) u_degC u_degF =
     Inr \<lparr>amount = Fin 100, from_unit = u_degC, to_unit = u_degF,
          result = Fin 212, timestamp = now, rate = None\<rparr>"
proof -
  have c: "u_degC \<in> set temperature_units" and f: "u_degF \<in> set temperature_units"
    and k: "u_K \<in> set temperature_units"
    by (simp_all add: temperature_units_def)
  have 1: "from_celsius u_K (to_celsius u_degC (Fin 0)) = lit (27315 / 100)"
    unfolding from_celsius_def to_celsius_def lit_273_15 by (simp add: double_273_15)
  have 2: "from_celsius u_degC (to_celsius u_degF (Fin 32)) = Fin 0"
    by (simp add: from_celsius_def to_celsius_def fsub_def round_double_0)
  have 3: "from_celsius u_degF (to_celsius u_degC (Fin 100)) = Fin 212"
    by (simp add: from_celsius_def to_celsius_def double_900 double_180 double_212)
  show ?thesis
    using unit_convert_temperature [of u v now x]
      unit_convert_temperature [OF c k, of now "Fin 0"]
      unit_convert_temperature [OF f c, of now "Fin 32"]
      unit_convert_temperature [OF c f, of now "Fin 100"]
    by (simp add: 1 2 3)
qed

text \<open>32 degrees Fahrenheit in Kelvin.\<close>

theorem C1_temperature_witness:
  "u_degF \<in> set temperature_units \<and> u_K \<in> set temperature_units \<and>
   unit_convert 0 (Fin 32) u_degF u_K =
     Inr \<lparr>amount = Fin 32, from_unit = u_degF, to_unit = u_K,
          result = lit (27315 / 100), timestamp = 0, rate = None\<rparr>"
proof -
  have f: "u_degF \<in> set temperature_units" and k: "u_K \<in> set temperature_units"
    by (simp_all add: temperature_units_def)
  have "from_celsius u_K (to_celsius u_degF (Fin 32)) = lit (27315 / 100)"
    unfolding from_celsius_def to_celsius_def lit_273_15
    by (simp add: fsub_def round_double_0 double_273_15)
  with C1_temperature [of u_degF u_K 0 "Fin 32"] f k show ?thesis by simp
qed

text \<open>
  C2. The claim: for currencies that are keys of the rates, \<open>convert\<close> returns a result
  computed by the three-way policy (\<open>amount * rates[to]\<close>; \<open>amount / rates[from]\<close> with
  rate \<open>1 / rates[from]\<close>; \<open>(amount / rates[from]) * rates[to]\<close> with rate
  \<open>result / amount\<close>). With the rates of the demonstration mode: converting 0 pounds to
  yen raises \<open>ZeroDivisionError\<close>; converting 5 dollars to roubles gives
  \<open>5 * (1 / 0.011)\<close>, which is 454.5454545454546, and not \<open>5 / 0.011\<close>, which is
  454.54545454545456; and a rate of zero raises \<open>ZeroDivisionError\<close>.
\<close>

theorem C2_policy_counterexample:
  "currency_convert ascii_upper demo_converter 0 (ascii ''GBP'') (ascii ''JPY'') (Fin 0)
     = Inl ZeroDivisionError \<and>
   currency_convert ascii_upper demo_converter 0 (ascii ''USD'') (ascii ''RUB'') (Fin 5)
     = Inr \<lparr>amount = Fin 5, from_unit = ascii ''USD'', to_unit = ascii ''RUB'',
            result = Fin (3998224101003637 / 8796093022208), timestamp = 0,
            rate = Some (Fin (6397158561605819 / 70368744177664))\<rparr> \<and>
   fquot (Fin 5) (lit (11 / 1000)) = Fin (7996448202007273 / 17592186044416) \<and>
   Fin (3998224101003637 / 8796093022208) \<noteq> Fin (7996448202007273 / 17592186044416) \<and>
   currency_convert ascii_upper
       (demo_converter\<lparr>rates := [(ascii ''XXX'', Fin 0), (ascii ''RUB'', lit 1)]\<rparr>) 0
       (ascii ''XXX'') (ascii ''RUB'') (Fin 5)
     = Inl ZeroDivisionError"
proof -
  have a: "currency_convert ascii_upper demo_converter 0 (ascii ''GBP'') (ascii ''JPY'') (Fin 0)
     = Inl ZeroDivisionError"
    using currency_convert_policy
      [where self = demo_converter and upper = ascii_upper and f = "ascii ''GBP''"
         and t = "ascii ''JPY''" and rf = "lit (85 / 10000)" and rt = "lit (165 / 100)"
         and now = 0 and a = "Fin 0"] demo_lookup(4) demo_lookup(5)
    by (simp add: demo_base)
  have nz: "lit (11 / 1000) \<noteq> Fin 0" by (rule lit_nonzero) simp
  have "currency_convert ascii_upper demo_converter 0 (ascii ''USD'') (ascii ''RUB'') (Fin 5)
     = Inr \<lparr>amount = Fin 5, from_unit = ascii ''USD'', to_unit = ascii ''RUB'',
            result = fmul (Fin 5) (fquot (Fin 1) (lit (11 / 1000))), timestamp = 0,
            rate = Some (fquot (Fin 1) (lit (11 / 1000)))\<rparr>"
    using currency_convert_policy
      [where self = demo_converter and upper = ascii_upper and f = "ascii ''USD''"
         and t = "ascii ''RUB''" and rf = "lit (11 / 1000)" and rt = "lit 1"
         and now = 0 and a = "Fin 5"] demo_lookup(1) demo_lookup(6) nz
    by (simp add: demo_base)
  then have b: "currency_convert ascii_upper demo_converter 0 (ascii ''USD'') (ascii ''RUB'') (Fin 5)
     = Inr \<lparr>amount = Fin 5, from_unit = ascii ''USD'', to_unit = ascii ''RUB'',
            result = Fin (3998224101003637 / 8796093022208), timestamp = 0,
            rate = Some (Fin (6397158561605819 / 70368744177664))\<rparr>"
    by (simp only: lit_0_011 fquot_1_usd fmul_5_usd)
  have c: "fquot (Fin 5) (lit (11 / 1000)) = Fin (7996448202007273 / 17592186044416)"
    by (simp only: lit_0_011 fquot_5_usd)
  have d: "Fin (3998224101003637 / 8796093022208) \<noteq> Fin (7996448202007273 / 17592186044416)"
    by simp
  have e: "currency_convert ascii_upper
       (demo_converter\<lparr>rates := [(ascii ''XXX'', Fin 0), (ascii ''RUB'', lit 1)]\<rparr>) 0
       (ascii ''XXX'') (ascii ''RUB'') (Fin 5) = Inl ZeroDivisionError"
    by (simp add: currency_convert_def demo_converter_def CurrencyConverter_init_def
        BASE_CURRENCY_def ascii_def ascii_upper_def fdiv_def Let_def)
  from a b c d e show ?thesis by (intro conjI)
qed

text \<open>
  C2, amended. For currencies that are keys of the rates: if \<open>from\<close> is the base currency,
  the result is \<open>amount * rates[to]\<close> and the rate \<open>rates[to]\<close>; otherwise, if \<open>to\<close> is the
  base currency and \<open>rates[from]\<close> is not zero, the rate is \<open>1 / rates[from]\<close> and the
  result \<open>amount * rate\<close>; otherwise, if \<open>rates[from]\<close> and the amount are not zero, the
  result is \<open>(amount / rates[from]) * rates[to]\<close> and the rate \<open>result / amount\<close>.
\<close>

theorem C2_conversion_policy:
  "map_of (rates self) (upper f) = Some rf \<and> map_of (rates self) (upper t) = Some rt \<longrightarrow>
   (upper f = base_currency self \<longrightarrow>
      currency_convert upper self now f t a =
        Inr \<lparr>amount = a, from_unit = upper f, to_unit = upper t, result = fmul a rt,
             timestamp = now, rate = Some rt\<rparr>) \<and>
   (upper f \<noteq> base_currency self \<and> upper t = base_currency self \<and> rf \<noteq> Fin 0 \<longrightarrow>
      currency_convert upper self now f t a =
        Inr \<lparr>amount = a, from_unit = upper f, to_unit = upper t,
             result = fmul a (fquot (Fin 1) rf), timestamp = now,
             rate = Some (fquot (Fin 1) rf)\<rparr>) \<and>
   (upper f \<noteq> base_currency self \<and> upper t \<noteq> base_currency self \<and> rf \<noteq> Fin 0 \<and> a \<noteq> Fin 0 \<longrightarrow>
      currency_convert upper self now f t a =
        Inr \<lparr>amount = a, from_unit = upper f, to_unit = upper t,
             result = fmul (fquot a rf) rt, timestamp = now,
             rate = Some (fquot (fmul (fquot a rf) rt) a)\<rparr>)"
proof
  assume "map_of (rates self) (upper f) = Some rf \<and> map_of (rates self) (upper t) = Some rt"
  then have 1: "map_of (rates self) (upper f) = Some rf"
    and 2: "map_of (rates self) (upper t) = Some rt"
    by simp_all
  from currency_convert_policy
    [where self = self and upper = upper and f = f and t = t and rf = rf and rt = rt
       and now = now and a = a] 1 2
  show "(upper f = base_currency self \<longrightarrow>
      currency_convert upper self now f t a =
        Inr \<lparr>amount = a, from_unit = upper f, to_unit = upper t, result = fmul a rt,
             timestamp = now, rate = Some rt\<rparr>) \<and>
   (upper f \<noteq> base_currency self \<and> upper t = base_currency self \<and> rf \<noteq> Fin 0 \<longrightarrow>
      currency_convert upper self now f t a =
        Inr \<lparr>amount = a, from_unit = upper f, to_unit = upper t,
             result = fmul a (fquot (Fin 1) rf), timestamp = now,
             rate = Some (fquot (Fin 1) rf)\<rparr>) \<and>
   (upper f \<noteq> base_currency self \<and> upper t \<noteq> base_currency self \<and> rf \<noteq> Fin 0 \<and> a \<noteq> Fin 0 \<longrightarrow>
      currency_convert upper self now f t a =
        Inr \<lparr>amount = a, from_unit = upper f, to_unit = upper t,
             result = fmul (fquot a rf) rt, timestamp = now,
             rate = Some (fquot (fmul (fquot a rf) rt) a)\<rparr>)"
    by simp
qed

text \<open>A hundred roubles in dollars, a hundred dollars in roubles and in euros.\<close>

theorem C2_conversion_policy_witness:
  "currency_convert ascii_upper demo_converter 0 (ascii ''rub'') (ascii ''usd'') (Fin 100)
     = Inr \<lparr>amount = Fin 100, from_unit = ascii ''RUB'', to_unit = ascii ''USD'',
            result = fmul (Fin 100) (lit (11 / 1000)), timestamp = 0,
            rate = Some (lit (11 / 1000))\<rparr> \<and>
   currency_convert ascii_upper demo_converter 0 (ascii ''USD'') (ascii ''RUB'') (Fin 100)
     = Inr \<lparr>amount = Fin 100, from_unit = ascii ''USD'', to_unit = ascii ''RUB'',
            result = fmul (Fin 100) (fquot (Fin 1) (lit (11 / 1000))), timestamp = 0,
            rate = Some (fquot (Fin 1) (lit (11 / 1000)))\<rparr> \<and>
   currency_convert ascii_upper demo_converter 0 (ascii ''USD'') (ascii ''EUR'') (Fin 100)
     = Inr \<lparr>amount = Fin 100, from_unit = ascii ''USD'', to_unit = ascii ''EUR'',
            result = fmul (fquot (Fin 100) (lit (11 / 1000))) (lit (10 / 1000)), timestamp = 0,
            rate = Some (fquot (fmul (fquot (Fin 100) (lit (11 / 1000))) (lit (10 / 1000)))
                           (Fin 100))\<rparr>"
proof -
  have nz: "lit (11 / 1000) \<noteq> Fin 0" by (rule lit_nonzero) simp
  have a: "Fin 100 \<noteq> Fin 0" by simp
  from C2_conversion_policy
    [where self = demo_converter and upper = ascii_upper and f = "ascii ''rub''"
       and t = "ascii ''usd''" and rf = "lit 1" and rt = "lit (11 / 1000)" and now = 0
       and a = "Fin 100"] demo_lookup(7) demo_lookup(2)
  have 1: "currency_convert ascii_upper demo_converter 0 (ascii ''rub'') (ascii ''usd'') (Fin 100)
     = Inr \<lparr>amount = Fin 100, from_unit = ascii ''RUB'', to_unit = ascii ''USD'',
            result = fmul (Fin 100) (lit (11 / 1000)), timestamp = 0,
            rate = Some (lit (11 / 1000))\<rparr>"
    by (simp add: demo_base)
  from C2_conversion_policy
    [where self = demo_converter and upper = ascii_upper and f = "ascii ''USD''"
       and t = "ascii ''RUB''" and rf = "lit (11 / 1000)" and rt = "lit 1" and now = 0
       and a = "Fin 100"] demo_lookup(1) demo_lookup(6) nz
  have 2: "currency_convert ascii_upper demo_converter 0 (ascii ''USD'') (ascii ''RUB'') (Fin 100)
     = Inr \<lparr>amount = Fin 100, from_unit = ascii ''USD'', to_unit = ascii ''RUB'',
            result = fmul (Fin 100) (fquot (Fin 1) (lit (11 / 1000))), timestamp = 0,
            rate = Some (fquot (Fin 1) (lit (11 / 1000)))\<rparr>"
    by (simp add: demo_base)
  from C2_conversion_policy
    [where self = demo_converter and upper = ascii_upper and f = "ascii ''USD''"
       and t = "ascii ''EUR''" and rf = "lit (11 / 1000)" and rt = "lit (10 / 1000)" and now = 0
       and a = "Fin 100"] demo_lookup(1) demo_lookup(3) nz a
  have 3: "currency_convert ascii_upper demo_converter 0 (ascii ''USD'') (ascii ''EUR'') (Fin 100)
     = Inr \<lparr>amount = Fin 100, from_unit = ascii ''USD'', to_unit = ascii ''EUR'',
            result = fmul (fquot (Fin 100) (lit (11 / 1000))) (lit (10 / 1000)), timestamp = 0,
            rate = Some (fquot (fmul (fquot (Fin 100) (lit (11 / 1000))) (lit (10 / 1000)))
                           (Fin 100))\<rparr>"
    by (simp add: demo_base)
  from 1 2 3 show ?thesis by (intro conjI)
qed

text \<open>
  C3. The claim: with both currencies in the rates and neither the base currency,
  \<open>convert(from, to, 0)\<close> succeeds, with result 0 and rate \<open>rates[to]\<close>. The program
  divides the result by the amount before it reaches the fallback to \<open>rates[to]\<close>: with
  the rates of the demonstration mode, converting 0 dollars to euros raises
  \<open>ZeroDivisionError\<close>.
\<close>

theorem C3_zero_amount_raises:
  "currency_convert ascii_upper demo_converter 0 (ascii ''USD'') (ascii ''EUR'') (Fin 0)
     = Inl ZeroDivisionError"
  by (simp add: currency_convert_def demo_converter_def CurrencyConverter_init_def
      demo_rates_def BASE_CURRENCY_def ascii_def ascii_upper_def fdiv_def Let_def lit_nonzero)
text \<open>
  C4. For every category of the table other than temperature, every two units \<open>u\<close>,
  \<open>v\<close> of it and every value \<open>x\<close>, \<open>UnitConverter.convert(x, u, v)\<close> succeeds; its
  \<open>result\<close> is \<open>x * factor[u] / factor[v]\<close>, its \<open>amount\<close> is \<open>x\<close>, its units are \<open>u\<close> and
  \<open>v\<close>.
\<close>

theorem C4_linear_conversion:
  assumes "belongs_to u c" and "belongs_to v c" and "c \<noteq> cat_Temperatura"
  shows "\<exists>f g. factor_of c u = Some (Factor f) \<and> factor_of c v = Some (Factor g) \<and>
           unit_convert now x u v =
             Inr \<lparr>amount = x, from_unit = u, to_unit = v, result = fquot (fmul x f) g,
                  timestamp = now, rate = None\<rparr>"
  using unit_convert_linear [OF assms, of now x] by blast


text \<open>Three kilometres in metres.\<close>

theorem C4_linear_conversion_witness:
  "belongs_to u_km cat_Dlina \<and> belongs_to u_m cat_Dlina \<and> cat_Dlina \<noteq> cat_Temperatura \<and>
   unit_convert 0 (Fin 3) u_km u_m =
     Inr \<lparr>amount = Fin 3, from_unit = u_km, to_unit = u_m,
          result = fquot (fmul (Fin 3) (lit 1000)) (lit 1), timestamp = 0, rate = None\<rparr>"
proof -
  have h1: "belongs_to u_km cat_Dlina" by (simp add: belongs_to_def CONVERSION_FACTORS_def)
  have h2: "belongs_to u_m cat_Dlina" by (simp add: belongs_to_def CONVERSION_FACTORS_def)
  have h3: "cat_Dlina \<noteq> cat_Temperatura" by simp
  have f: "factor_of cat_Dlina u_km = Some (Factor (lit 1000))"
    by (simp add: factor_of_def CONVERSION_FACTORS_def)
  have g: "factor_of cat_Dlina u_m = Some (Factor (lit 1))"
    by (simp add: factor_of_def CONVERSION_FACTORS_def)
  from C4_linear_conversion [OF h1 h2 h3, of 0 "Fin 3"] f g h1 h2 h3 show ?thesis by auto
qed

text \<open>
  C5. The claim: \<open>convert(x, u, u).result == x\<close> exactly, for every unit \<open>u\<close> and finite
  \<open>x\<close>. The program multiplies by the factor and then divides by it, each time with
  rounding: 7 centimetres in centimetres are 7.000000000000001.
\<close>

theorem C5_identity_counterexample:
  "is_double 7 \<and>
   unit_convert 0 (Fin 7) u_sm u_sm =
     Inr \<lparr>amount = Fin 7, from_unit = u_sm, to_unit = u_sm,
          result = Fin (7881299347898369 / 1125899906842624), timestamp = 0, rate = None\<rparr> \<and>
   Fin (7881299347898369 / 1125899906842624) \<noteq> Fin 7"
proof -
  have b: "belongs_to u_sm cat_Dlina" by (simp add: belongs_to_def CONVERSION_FACTORS_def)
  have f: "factor_of cat_Dlina u_sm = Some (Factor (lit (1 / 100)))"
    by (simp add: factor_of_def CONVERSION_FACTORS_def)
  from unit_convert_linear [OF b b, of 0 "Fin 7"] f
  have "unit_convert 0 (Fin 7) u_sm u_sm =
     Inr \<lparr>amount = Fin 7, from_unit = u_sm, to_unit = u_sm,
          result = fquot (fmul (Fin 7) (lit (1 / 100))) (lit (1 / 100)),
          timestamp = 0, rate = None\<rparr>" by auto
  moreover have "fquot (fmul (Fin 7) (lit (1 / 100))) (lit (1 / 100))
      = Fin (7881299347898369 / 1125899906842624)"
    by (simp only: lit_0_01 fmul_7_cm fquot_7_cm)
  ultimately show ?thesis using is_double_7 by simp
qed

text \<open>
  C5, amended. For degrees Celsius and for every unit whose factor is 1.0 (the base unit
  of each linear category), and every finite \<open>x\<close>, \<open>convert(x, u, u).result == x\<close> exactly.
\<close>

theorem C5_identity_base_units:
  "is_double x \<and> (u = u_degC \<or> belongs_to u c \<and> factor_of c u = Some (Factor (lit 1))) \<longrightarrow>
   unit_convert now (Fin x) u u =
     Inr \<lparr>amount = Fin x, from_unit = u, to_unit = u, result = Fin x,
          timestamp = now, rate = None\<rparr>"
proof (intro impI, elim conjE disjE)
  assume "u = u_degC"
  moreover have "u_degC \<in> set temperature_units" by (simp add: temperature_units_def)
  ultimately show "unit_convert now (Fin x) u u =
     Inr \<lparr>amount = Fin x, from_unit = u, to_unit = u, result = Fin x,
          timestamp = now, rate = None\<rparr>"
    using unit_convert_temperature [of u_degC u_degC now "Fin x"]
    by (simp add: from_celsius_def to_celsius_def)
next
  assume x: "is_double x" and b: "belongs_to u c"
    and f: "factor_of c u = Some (Factor (lit 1))"
  have ne: "c \<noteq> cat_Temperatura"
  proof
    assume "c = cat_Temperatura"
    with f show False by (simp add: factor_of_def table_temperature lit_1 split: if_splits)
  qed
  from x have "fquot (fmul (Fin x) (lit 1)) (lit 1) = Fin x"
    by (simp add: lit_1 is_double_def)
  with unit_convert_linear [OF b b ne, of now "Fin x"] f
  show "unit_convert now (Fin x) u u =
     Inr \<lparr>amount = Fin x, from_unit = u, to_unit = u, result = Fin x,
          timestamp = now, rate = None\<rparr>" by auto
qed

text \<open>7 metres in metres.\<close>

theorem C5_identity_base_units_witness:
  "is_double 7 \<and> belongs_to u_m cat_Dlina \<and> factor_of cat_Dlina u_m = Some (Factor (lit 1)) \<and>
   unit_convert 0 (Fin 7) u_m u_m =
     Inr \<lparr>amount = Fin 7, from_unit = u_m, to_unit = u_m, result = Fin 7,
          timestamp = 0, rate = None\<rparr>"
proof -
  have b: "belongs_to u_m cat_Dlina" by (simp add: belongs_to_def CONVERSION_FACTORS_def)
  have f: "factor_of cat_Dlina u_m = Some (Factor (lit 1))"
    by (simp add: factor_of_def CONVERSION_FACTORS_def)
  from C5_identity_base_units [of 7 u_m cat_Dlina 0] is_double_7 b f show ?thesis by simp
qed




text \<open>
  C7. The claim: whatever the remote fetch gives, \<open>fetch_rates\<close> raises nothing and
  returns \<open>False\<close> on failure, the state unchanged. The program catches the exceptions
  of the transport and of the JSON decoder only: a JSON object without the entry
  \<open>result\<close> makes \<open>KeyError\<close> leave \<open>fetch_rates\<close> (the state is unchanged).
\<close>

theorem C7_missing_key_propagates:
  "fetch_rates
     \<lparr>w_cache = NoFile,
      w_response = BodyObject \<lparr>ad_result = None, ad_conversion_rates = None\<rparr>,
      w_write = WriteOk, w_now_load = 0, w_now_update = 0, w_now_save = 0\<rparr>
     demo_converter
   = \<lparr>fo_self = demo_converter, fo_cache = NoFile, fo_contacted = True,
      fo_return = Inl (KeyError (ascii ''result''))\<rparr>"
  by (simp add: fetch_rates_def load_from_cache_def fetch_body_def caught_by_fetch_def)

text \<open>
  C8. \<open>UnitConverter.convert(x, u, v)\<close> fails with the error of an unknown unit exactly
  when \<open>u\<close> or \<open>v\<close> is in no category of the table; otherwise it fails with the error of
  incompatible units exactly when the categories of \<open>u\<close> and \<open>v\<close> differ, and the message
  then contains the names of both categories; otherwise it succeeds. Every known unit
  is in exactly one category, so the three cases exclude each other.
\<close>

theorem C8_unit_errors:
  "(\<not> known_unit u \<or> \<not> known_unit v \<longrightarrow>
      (\<exists>e. unit_convert now x u v = Inl e \<and> is_unknown_unit_error e \<and>
           \<not> is_incompatible_units_error e)) \<and>
   (belongs_to u c \<and> belongs_to v c' \<and> c \<noteq> c' \<longrightarrow>
      (\<exists>m. unit_convert now x u v = Inl (ValueError m) \<and>
           is_incompatible_units_error (ValueError m) \<and>
           \<not> is_unknown_unit_error (ValueError m) \<and> sublist c m \<and> sublist c' m)) \<and>
   (belongs_to u c \<and> belongs_to v c \<longrightarrow> (\<exists>r. unit_convert now x u v = Inr r)) \<and>
   (known_unit u \<longleftrightarrow> (\<exists>k. belongs_to u k)) \<and>
   (belongs_to u c \<and> belongs_to u c' \<longrightarrow> c = c')"
proof (intro conjI impI)
  assume "\<not> known_unit u \<or> \<not> known_unit v"
  then have "unit_convert now x u v = Inl (unknown_unit_error u v)" by (rule unit_convert_unknown)
  with unknown_unit_error_kind [of u v]
  show "\<exists>e. unit_convert now x u v = Inl e \<and> is_unknown_unit_error e \<and>
           \<not> is_incompatible_units_error e" by blast
next
  assume "belongs_to u c \<and> belongs_to v c' \<and> c \<noteq> c'"
  then have "belongs_to u c" and "belongs_to v c'" and "c \<noteq> c'" by simp_all
  then have e: "unit_convert now x u v = Inl (incompatible_units_error u c v c')"
    by (rule unit_convert_incompatible)
  from incompatible_units_error_names [of u c v c'] obtain m where
    m: "incompatible_units_error u c v c' = ValueError m" "sublist c m" "sublist c' m" by blast
  with e incompatible_units_error_kind [of u c v c']
  show "\<exists>m. unit_convert now x u v = Inl (ValueError m) \<and>
           is_incompatible_units_error (ValueError m) \<and>
           \<not> is_unknown_unit_error (ValueError m) \<and> sublist c m \<and> sublist c' m"
    by auto
next
  assume "belongs_to u c \<and> belongs_to v c"
  then have "belongs_to u c" and "belongs_to v c" by simp_all
  then show "\<exists>r. unit_convert now x u v = Inr r" by (rule unit_convert_same_category)
next
  show "known_unit u \<longleftrightarrow> (\<exists>k. belongs_to u k)" by (rule known_unit_iff)
next
  assume "belongs_to u c \<and> belongs_to u c'"
  then have "belongs_to u c" and "belongs_to u c'" by simp_all
  then show "c = c'" by (rule belongs_to_unique)
qed

text \<open>Metres to parsecs, metres to kilograms, metres to kilometres.\<close>

theorem C8_unit_errors_witness:
  "\<not> known_unit (ascii ''parsecs'') \<and>
   (\<exists>e. unit_convert 0 (Fin 1) u_m (ascii ''parsecs'') = Inl e \<and> is_unknown_unit_error e \<and>
        \<not> is_incompatible_units_error e) \<and>
   belongs_to u_m cat_Dlina \<and> belongs_to u_kg cat_Massa \<and> cat_Dlina \<noteq> cat_Massa \<and>
   (\<exists>m. unit_convert 0 (Fin 1) u_m u_kg = Inl (ValueError m) \<and>
        is_incompatible_units_error (ValueError m) \<and> \<not> is_unknown_unit_error (ValueError m) \<and>
        sublist cat_Dlina m \<and> sublist cat_Massa m) \<and>
   belongs_to u_km cat_Dlina \<and> (\<exists>r. unit_convert 0 (Fin 1) u_m u_km = Inr r) \<and>
   known_unit u_m"
proof -
  have p: "\<not> known_unit (ascii ''parsecs'')"
    by (simp add: known_unit_def CONVERSION_FACTORS_def ascii_def)
  have m: "belongs_to u_m cat_Dlina" by (simp add: belongs_to_def CONVERSION_FACTORS_def)
  have km: "belongs_to u_km cat_Dlina" by (simp add: belongs_to_def CONVERSION_FACTORS_def)
  have kg: "belongs_to u_kg cat_Massa" by (simp add: belongs_to_def CONVERSION_FACTORS_def)
  have ne: "cat_Dlina \<noteq> cat_Massa" by simp
  from C8_unit_errors [of u_m "ascii ''parsecs''" 0 "Fin 1" cat_Dlina cat_Massa] p
  have 1: "\<exists>e. unit_convert 0 (Fin 1) u_m (ascii ''parsecs'') = Inl e \<and> is_unknown_unit_error e \<and>
        \<not> is_incompatible_units_error e" by blast
  from C8_unit_errors [of u_m u_kg 0 "Fin 1" cat_Dlina cat_Massa] m kg ne
  have 2: "\<exists>m. unit_convert 0 (Fin 1) u_m u_kg = Inl (ValueError m) \<and>
        is_incompatible_units_error (ValueError m) \<and> \<not> is_unknown_unit_error (ValueError m) \<and>
        sublist cat_Dlina m \<and> sublist cat_Massa m"
    and 4: "known_unit u_m" by blast+
  from C8_unit_errors [of u_m u_km 0 "Fin 1" cat_Dlina cat_Dlina] m km
  have 3: "\<exists>r. unit_convert 0 (Fin 1) u_m u_km = Inr r" by blast
  from p 1 m kg ne 2 km 3 4 show ?thesis by blast
qed

text \<open>
  C9. Every result of \<open>CurrencyConverter.convert\<close> has a rate, and every result of
  \<open>UnitConverter.convert\<close>, in whatever category, has none.
\<close>

theorem C9_rate_presence:
  "(currency_convert upper self now f t a = Inr r \<longrightarrow> rate r \<noteq> None) \<and>
   (unit_convert now' x u v = Inr r' \<longrightarrow> rate r' = None)"
proof
  show "currency_convert upper self now f t a = Inr r \<longrightarrow> rate r \<noteq> None"
    by (auto simp: currency_convert_def Let_def
        split: if_splits option.splits sum.splits prod.splits)
  show "unit_convert now' x u v = Inr r' \<longrightarrow> rate r' = None"
    by (auto simp: unit_convert_def Let_def split: if_splits sum.splits)
qed

text \<open>A hundred roubles in dollars; a hundred degrees Celsius in Fahrenheit.\<close>

theorem C9_rate_presence_witness:
  "(\<exists>r. currency_convert ascii_upper demo_converter 0 (ascii ''rub'') (ascii ''usd'') (Fin 100)
          = Inr r \<and> rate r \<noteq> None) \<and>
   (\<exists>r'. unit_convert 0 (Fin 100) u_degC u_degF = Inr r' \<and> rate r' = None)"
proof -
  have c: "currency_convert ascii_upper demo_converter 0 (ascii ''rub'') (ascii ''usd'') (Fin 100)
      = Inr \<lparr>amount = Fin 100, from_unit = ascii ''RUB'', to_unit = ascii ''USD'',
             result = fmul (Fin 100) (lit (11 / 1000)), timestamp = 0,
             rate = Some (lit (11 / 1000))\<rparr>"
    by (simp add: currency_convert_def demo_converter_def CurrencyConverter_init_def
        demo_rates_def BASE_CURRENCY_def ascii_def ascii_upper_def Let_def)
  have t: "u_degC \<in> set temperature_units" "u_degF \<in> set temperature_units"
    by (simp_all add: temperature_units_def)
  note u = unit_convert_temperature [OF t, of 0 "Fin 100"]
  from C9_rate_presence [of ascii_upper demo_converter 0 "ascii ''rub''" "ascii ''usd''" "Fin 100"
      _ 0 "Fin 100" u_degC u_degF] c u
  show ?thesis by simp
qed

text \<open>
  C10. Loading the cache never reads the entry \<open>base\<close>: two cache records with the same
  \<open>timestamp\<close> and \<open>rates\<close> load alike, with the same rates, the same \<open>last_update\<close> and
  the same returned value; and a fresh cache that another converter saved, whatever
  its base currency, is adopted as it is.
\<close>

theorem C10_base_ignored:
  "(cd_timestamp d1 = cd_timestamp d2 \<and> cd_rates d1 = cd_rates d2 \<longrightarrow>
      load_from_cache (JsonObject d1) now self = load_from_cache (JsonObject d2) now self) \<and>
   (now - t < timedelta_hours 24 \<longrightarrow>
      load_from_cache (save_to_cache WriteOk t file other) now self
        = (self\<lparr>rates := rates other, last_update := Some t\<rparr>, True))"
  by (auto simp: load_from_cache_def load_cache_body_def save_to_cache_def
      CACHE_DURATION_HOURS_def split: option.splits ts_field.splits)

text \<open>A cache of the dollar, loaded by a converter of the rouble.\<close>

theorem C10_base_ignored_witness:
  "load_from_cache (sample_cache 0 (ascii ''USD'')) (timedelta_hours 1)
       (CurrencyConverter_init API_KEY (ascii ''RUB''))
     = load_from_cache (sample_cache 0 (ascii ''RUB'')) (timedelta_hours 1)
         (CurrencyConverter_init API_KEY (ascii ''RUB'')) \<and>
   load_from_cache
       (save_to_cache WriteOk 0 NoFile
          ((CurrencyConverter_init API_KEY (ascii ''USD''))\<lparr>rates := demo_rates\<rparr>))
       (timedelta_hours 1) (CurrencyConverter_init API_KEY (ascii ''RUB''))
     = ((CurrencyConverter_init API_KEY (ascii ''RUB''))
          \<lparr>rates := demo_rates, last_update := Some 0\<rparr>, True)"
proof -
  have h: "timedelta_hours 1 - 0 < timedelta_hours 24" by (simp add: timedelta_hours_def)
  from C10_base_ignored
    [of "\<lparr>cd_timestamp = Some (TsNaive 0), cd_base = Some (ascii ''USD''),
          cd_rates = Some demo_rates\<rparr>"
        "\<lparr>cd_timestamp = Some (TsNaive 0), cd_base = Some (ascii ''RUB''),
          cd_rates = Some demo_rates\<rparr>"
        "timedelta_hours 1" "CurrencyConverter_init API_KEY (ascii ''RUB'')" 0 NoFile
        "(CurrencyConverter_init API_KEY (ascii ''USD''))\<lparr>rates := demo_rates\<rparr>"] h
  show ?thesis by (simp add: sample_cache_def)
qed

end
